theory Spec2Isabelle
  imports Main "HOL-Library.Sublist"
begin

section \<open>Python values used by the parser tree\<close>

text \<open>
  A position is Python's tuple \<open>(line, column)\<close>; tuples compare lexicographically.
  References to objects are indices into the object store.
\<close>

type_synonym pos = "int \<times> int"
type_synonym ref = nat

definition pos_less :: "pos \<Rightarrow> pos \<Rightarrow> bool" where
  "pos_less a b = (fst a < fst b \<or> (fst a = fst b \<and> snd a < snd b))"

definition pos_le :: "pos \<Rightarrow> pos \<Rightarrow> bool" where
  "pos_le a b = (fst a < fst b \<or> (fst a = fst b \<and> snd a \<le> snd b))"

definition endswith :: "string \<Rightarrow> string \<Rightarrow> bool" where
  \<comment> \<open>\<open>str.endswith\<close>\<close>
  "endswith s suf = (length suf \<le> length s \<and> drop (length s - length suf) s = suf)"

section \<open>Exceptions and the state monad\<close>

text \<open>
  Python exceptions are values. \<open>OutOfFuel\<close> is not a Python exception: every loop and
  every recursion of the source is bounded by a fuel argument, and a run that exhausts it
  ends in \<open>OutOfFuel\<close>. \<open>Unmodelled\<close> marks the few paths that need code outside
  \<^verbatim>\<open>parsing.py\<close>. Neither is ever caught.
\<close>

datatype exc =
    StopIteration | MultiLevelStopIteration
  | AttributeError | TypeError | IndexError | KeyError | ValueError | UnboundLocalError
  | LiteralError
  | OutOfFuel | Unmodelled

type_synonym ('s, 'a) m = "'s \<Rightarrow> (exc + 'a) \<times> 's"

definition ret :: "'a \<Rightarrow> ('s, 'a) m" where
  "ret x = (\<lambda>s. (Inr x, s))"

definition raise :: "exc \<Rightarrow> ('s, 'a) m" where
  "raise e = (\<lambda>s. (Inl e, s))"

definition bnd :: "('s, 'a) m \<Rightarrow> ('a \<Rightarrow> ('s, 'b) m) \<Rightarrow> ('s, 'b) m" where
  "bnd f g = (\<lambda>s. case f s of (Inl e, s') \<Rightarrow> (Inl e, s') | (Inr x, s') \<Rightarrow> g x s')"

definition thn :: "('s, 'a) m \<Rightarrow> ('s, 'b) m \<Rightarrow> ('s, 'b) m" where
  "thn f g = bnd f (\<lambda>_. g)"

definition get_st :: "('s, 's) m" where
  "get_st = (\<lambda>s. (Inr s, s))"

definition modify :: "('s \<Rightarrow> 's) \<Rightarrow> ('s, unit) m" where
  "modify f = (\<lambda>s. (Inr (), f s))"

definition whenM :: "bool \<Rightarrow> ('s, unit) m \<Rightarrow> ('s, unit) m" where
  "whenM b f = (if b then f else ret ())"

definition is_stop :: "exc \<Rightarrow> bool" where
  "is_stop e = (e = StopIteration \<or> e = MultiLevelStopIteration)"

definition try_except :: "(exc \<Rightarrow> bool) \<Rightarrow> ('s, 'a) m \<Rightarrow> (exc \<Rightarrow> ('s, 'a) m) \<Rightarrow> ('s, 'a) m" where
  \<comment> \<open>\<open>try: f except <caught>: h\<close>; the state reached when the exception was raised is kept\<close>
  "try_except caught f h =
     (\<lambda>s. case f s of
            (Inl e, s') \<Rightarrow> if caught e then h e s' else (Inl e, s')
          | (Inr x, s') \<Rightarrow> (Inr x, s'))"

definition guard_stop :: "('s, 'a) m \<Rightarrow> ('s, 'a option) m" where
  \<comment> \<open>runs \<open>f\<close> inside \<open>try: ... except (StopIteration, MultiLevelStopIteration)\<close>:
      \<open>None\<close> when one of the two was raised\<close>
  "guard_stop f = try_except is_stop (bnd f (\<lambda>x. ret (Some x))) (\<lambda>_. ret None)"

fun for_each :: "'a list \<Rightarrow> ('a \<Rightarrow> ('s, unit) m) \<Rightarrow> ('s, unit) m" where
  "for_each [] f = ret ()"
| "for_each (x # xs) f = thn (f x) (for_each xs f)"

section \<open>Tokens\<close>

text \<open>
  The token source yields \<open>(kind, text, start, end, raw_line)\<close>; the raw line is only
  logged, so the model keeps the first four components. \<open>Parser.current\<close> is the pair
  \<open>(kind, text)\<close>.
\<close>

datatype token_type =
  NAME | NUMBER | STRING | OP | NEWLINE | NL | INDENT | DEDENT | COMMENT | ENDMARKER | ERRORTOKEN

type_synonym token = "token_type \<times> string \<times> pos \<times> pos"

text \<open>
  An entry of a statement's token list: the tuple \<open>self.current + (self.start_pos,)\<close>,
  or an object (\<open>Name\<close>, \<open>ListComprehension\<close>, \<open>Lambda\<close>). A value of the local
  variable \<open>tok\<close>: a string or an object.
\<close>

datatype tok_item = TokTuple token_type string pos | TokObj ref

datatype tokv = S string | Ob ref

text \<open>A token of an \<open>Array\<close> field: a \<open>Call\<close>/\<open>Array\<close> or another object, or a string.\<close>

datatype field_item = FObj ref | FStr string

text \<open>Results of \<open>literal_eval\<close> and the first component returned by \<open>_parse_dot_name\<close>
  (\<open>None\<close>, the empty list \<open>[]\<close>, or a \<open>Name\<close>).\<close>

datatype pyval = PyInt int | PyStr string | PyOther string

datatype dot_name = DN_None | DN_Empty | DN_Name ref

datatype call_name = CNone | CName ref | CLit pyval

datatype call_type =
  Call_NAME | Call_NUMBER | Call_STRING | NOARRAY | TUPLE | LIST | DICT | SET

section \<open>The classes of the parser tree\<close>

text \<open>
  Each class is the group of records of its own attributes and of its base classes'.
  \<open>_end_pos = None\<close> stands for the tuple \<open>(None, None)\<close>. For a \<open>Flow\<close> the field
  \<open>parent\<close> is the attribute \<open>_parent\<close> behind the property.
\<close>

record simple =
  parent :: "ref option"
  module :: ref
  start_pos_raw :: pos
  use_as_parent :: ref
  end_pos_raw :: "pos option"

record scope_f =
  subscopes :: "ref list"
  imports_l :: "ref list"
  statements :: "ref list"
  docstr :: string
  asserts :: "ref list"

record module_f =
  path :: "string option"
  global_vars :: "ref list"
  name_cache :: "ref option"
  used_names :: "(string \<times> ref list) list"
  temp_used_names :: "string list"
  line_offset :: int

record class_f =
  c_name :: ref
  supers :: "ref list"
  c_decorators :: "ref option list"

record function_f =
  f_name :: "ref option"
  params :: "ref list"
  f_decorators :: "ref option list"
  returns :: "ref option list"
  is_generator :: bool
  annotation :: "ref option"

record flow_f =
  next_flow :: "ref option"
  command :: string
  inits :: "ref list"
  set_vars :: "ref list"

record import_f =
  namespace :: dot_name
  alias_n :: dot_name
  from_ns :: dot_name
  star :: bool
  relative_count :: int
  defunct :: bool

record statement_f =
  code :: string
  used_funcs :: "ref list"
  used_vars :: "ref list"
  token_list :: "tok_item list"
  s_set_vars :: "ref list"
  assignment_calls_cache :: "ref option"
  assignment_details_cache :: "(string \<times> ref) list option"
  assignment_calls_calculated :: bool

record param_f =
  position_nr :: "nat option"
  is_generated :: bool
  annotation_stmt :: "ref option"
  parent_function :: "ref option"

record call_f =
  name :: call_name
  call_parent :: "ref option"
  type_c :: call_type
  call_start_pos :: pos
  next_call :: "ref option"
  execution :: "ref option"
  parent_stmt_raw :: "ref option"
  call_end_pos :: "pos option"

record array_f =
  values_l :: "field_item list list"
  arr_el_pos :: "pos list"
  keys_l :: "field_item list list"

datatype node =
    SubModule simple scope_f module_f
  | Class simple scope_f class_f
  | Function simple scope_f function_f
  | Lambda simple scope_f function_f
  | Flow simple scope_f flow_f
  | ForFlow simple scope_f flow_f ref bool
  | Import simple import_f
  | Statement simple statement_f
  | Param simple statement_f param_f
  | Name simple "(string \<times> pos) list"
  | ListComprehension ref ref ref
  | Call call_f
  | Array call_f array_f

type_synonym heap = "node list"
type_synonym 'a hm = "(heap, 'a) m"

section \<open>The object store\<close>

text \<open>
  Objects live in a list; a reference is an index and a new object is appended. Reading a
  reference that is not in the store cannot happen in a run of the parser; the model
  answers \<open>Unmodelled\<close>.
\<close>

definition alloc :: "node \<Rightarrow> ref hm" where
  "alloc nd = (\<lambda>h. (Inr (length h), h @ [nd]))"

definition get_node :: "ref \<Rightarrow> node hm" where
  "get_node r = (\<lambda>h. if r < length h then (Inr (h ! r), h) else (Inl Unmodelled, h))"

definition put_node :: "ref \<Rightarrow> node \<Rightarrow> unit hm" where
  "put_node r nd = (\<lambda>h. (Inr (), h[r := nd]))"

definition upd :: "ref \<Rightarrow> (node \<Rightarrow> node option) \<Rightarrow> unit hm" where
  \<comment> \<open>an attribute write; \<open>None\<close> when the object's class has no such attribute\<close>
  "upd r F = bnd (get_node r) (\<lambda>nd. case F nd of None \<Rightarrow> raise AttributeError
                                             | Some nd' \<Rightarrow> put_node r nd')"

definition attr :: "ref \<Rightarrow> (node \<Rightarrow> 'a option) \<Rightarrow> 'a hm" where
  \<comment> \<open>an attribute read\<close>
  "attr r G = bnd (get_node r) (\<lambda>nd. case G nd of None \<Rightarrow> raise AttributeError
                                              | Some x \<Rightarrow> ret x)"

fun simple_of :: "node \<Rightarrow> simple option" where
  "simple_of (SubModule s _ _) = Some s"
| "simple_of (Class s _ _) = Some s"
| "simple_of (Function s _ _) = Some s"
| "simple_of (Lambda s _ _) = Some s"
| "simple_of (Flow s _ _) = Some s"
| "simple_of (ForFlow s _ _ _ _) = Some s"
| "simple_of (Import s _) = Some s"
| "simple_of (Statement s _) = Some s"
| "simple_of (Param s _ _) = Some s"
| "simple_of (Name s _) = Some s"
| "simple_of _ = None"

fun map_simple :: "(simple \<Rightarrow> simple) \<Rightarrow> node \<Rightarrow> node option" where
  "map_simple g (SubModule s a b) = Some (SubModule (g s) a b)"
| "map_simple g (Class s a b) = Some (Class (g s) a b)"
| "map_simple g (Function s a b) = Some (Function (g s) a b)"
| "map_simple g (Lambda s a b) = Some (Lambda (g s) a b)"
| "map_simple g (Flow s a b) = Some (Flow (g s) a b)"
| "map_simple g (ForFlow s a b c d) = Some (ForFlow (g s) a b c d)"
| "map_simple g (Import s a) = Some (Import (g s) a)"
| "map_simple g (Statement s a) = Some (Statement (g s) a)"
| "map_simple g (Param s a b) = Some (Param (g s) a b)"
| "map_simple g (Name s a) = Some (Name (g s) a)"
| "map_simple g _ = None"

fun scope_of :: "node \<Rightarrow> scope_f option" where
  "scope_of (SubModule _ sc _) = Some sc"
| "scope_of (Class _ sc _) = Some sc"
| "scope_of (Function _ sc _) = Some sc"
| "scope_of (Lambda _ sc _) = Some sc"
| "scope_of (Flow _ sc _) = Some sc"
| "scope_of (ForFlow _ sc _ _ _) = Some sc"
| "scope_of _ = None"

fun map_scope :: "(scope_f \<Rightarrow> scope_f) \<Rightarrow> node \<Rightarrow> node option" where
  "map_scope g (SubModule s sc b) = Some (SubModule s (g sc) b)"
| "map_scope g (Class s sc b) = Some (Class s (g sc) b)"
| "map_scope g (Function s sc b) = Some (Function s (g sc) b)"
| "map_scope g (Lambda s sc b) = Some (Lambda s (g sc) b)"
| "map_scope g (Flow s sc b) = Some (Flow s (g sc) b)"
| "map_scope g (ForFlow s sc b c d) = Some (ForFlow s (g sc) b c d)"
| "map_scope g _ = None"

fun module_of :: "node \<Rightarrow> module_f option" where
  "module_of (SubModule _ _ mf) = Some mf"
| "module_of _ = None"

fun map_module :: "(module_f \<Rightarrow> module_f) \<Rightarrow> node \<Rightarrow> node option" where
  "map_module g (SubModule s sc mf) = Some (SubModule s sc (g mf))"
| "map_module g _ = None"

fun function_of :: "node \<Rightarrow> function_f option" where
  "function_of (Function _ _ ff) = Some ff"
| "function_of (Lambda _ _ ff) = Some ff"
| "function_of _ = None"

fun map_function :: "(function_f \<Rightarrow> function_f) \<Rightarrow> node \<Rightarrow> node option" where
  "map_function g (Function s sc ff) = Some (Function s sc (g ff))"
| "map_function g (Lambda s sc ff) = Some (Lambda s sc (g ff))"
| "map_function g _ = None"

fun flow_of :: "node \<Rightarrow> flow_f option" where
  "flow_of (Flow _ _ f) = Some f"
| "flow_of (ForFlow _ _ f _ _) = Some f"
| "flow_of _ = None"

fun map_flow :: "(flow_f \<Rightarrow> flow_f) \<Rightarrow> node \<Rightarrow> node option" where
  "map_flow g (Flow s sc f) = Some (Flow s sc (g f))"
| "map_flow g (ForFlow s sc f a b) = Some (ForFlow s sc (g f) a b)"
| "map_flow g _ = None"

fun import_of :: "node \<Rightarrow> import_f option" where
  "import_of (Import _ i) = Some i"
| "import_of _ = None"

fun statement_of :: "node \<Rightarrow> statement_f option" where
  "statement_of (Statement _ st) = Some st"
| "statement_of (Param _ st _) = Some st"
| "statement_of _ = None"

fun map_statement :: "(statement_f \<Rightarrow> statement_f) \<Rightarrow> node \<Rightarrow> node option" where
  "map_statement g (Statement s st) = Some (Statement s (g st))"
| "map_statement g (Param s st pf) = Some (Param s (g st) pf)"
| "map_statement g _ = None"

fun map_param :: "(param_f \<Rightarrow> param_f) \<Rightarrow> node \<Rightarrow> node option" where
  "map_param g (Param s st pf) = Some (Param s st (g pf))"
| "map_param g _ = None"

fun names_of :: "node \<Rightarrow> (string \<times> pos) list option" where
  "names_of (Name _ ns) = Some ns"
| "names_of _ = None"

fun call_of :: "node \<Rightarrow> call_f option" where
  "call_of (Call c) = Some c"
| "call_of (Array c _) = Some c"
| "call_of _ = None"

fun map_call :: "(call_f \<Rightarrow> call_f) \<Rightarrow> node \<Rightarrow> node option" where
  "map_call g (Call c) = Some (Call (g c))"
| "map_call g (Array c a) = Some (Array (g c) a)"
| "map_call g _ = None"

fun array_of :: "node \<Rightarrow> array_f option" where
  "array_of (Array _ a) = Some a"
| "array_of _ = None"

fun map_array :: "(array_f \<Rightarrow> array_f) \<Rightarrow> node \<Rightarrow> node option" where
  "map_array g (Array c a) = Some (Array c (g a))"
| "map_array g _ = None"

fun is_Name :: "node \<Rightarrow> bool" where
  "is_Name (Name _ _) = True"
| "is_Name _ = False"

fun is_ListComprehension :: "node \<Rightarrow> bool" where
  "is_ListComprehension (ListComprehension _ _ _) = True"
| "is_ListComprehension _ = False"

fun is_Function :: "node \<Rightarrow> bool" where
  \<comment> \<open>\<open>isinstance(x, Function)\<close>; \<open>Lambda\<close> is a subclass\<close>
  "is_Function (Function _ _ _) = True"
| "is_Function (Lambda _ _ _) = True"
| "is_Function _ = False"

fun is_plain_Call :: "node \<Rightarrow> bool" where
  \<comment> \<open>\<open>type(x) == Call\<close>: the class itself, not \<open>Array\<close>\<close>
  "is_plain_Call (Call _) = True"
| "is_plain_Call _ = False"

definition isinstance_Name :: "heap \<Rightarrow> ref \<Rightarrow> bool" where
  "isinstance_Name h r = (r < length h \<and> is_Name (h ! r))"

definition isinstance_ListComprehension :: "heap \<Rightarrow> ref \<Rightarrow> bool" where
  "isinstance_ListComprehension h r = (r < length h \<and> is_ListComprehension (h ! r))"

section \<open>Simple, Scope and the scope classes\<close>

fun node_truthy :: "node \<Rightarrow> bool" where
  \<comment> \<open>\<open>bool(x)\<close>: \<open>Name\<close> and \<open>Array\<close> define \<open>__len__\<close>, the other classes do not\<close>
  "node_truthy (Name _ ns) = (ns \<noteq> [])"
| "node_truthy (Array _ a) = (values_l a \<noteq> [])"
| "node_truthy _ = True"

definition truthy :: "heap \<Rightarrow> ref \<Rightarrow> bool" where
  "truthy h r = (r < length h \<and> node_truthy (h ! r))"

definition Simple_init :: "ref \<Rightarrow> ref \<Rightarrow> pos \<Rightarrow> pos option \<Rightarrow> simple" where
  "Simple_init self module' start_pos' end_pos' =
     \<lparr>parent = None, module = module', start_pos_raw = start_pos', use_as_parent = self,
      end_pos_raw = end_pos'\<rparr>"

definition Scope_init :: scope_f where
  "Scope_init = \<lparr>subscopes = [], imports_l = [], statements = [], docstr = [], asserts = []\<rparr>"

definition start_pos :: "ref \<Rightarrow> pos hm" where
  \<comment> \<open>\<open>self.module.line_offset + self._start_pos[0], self._start_pos[1]\<close>\<close>
  "start_pos self =
     bnd (attr self simple_of) (\<lambda>s.
     bnd (attr (module s) module_of) (\<lambda>mf.
     ret (line_offset mf + fst (start_pos_raw s), snd (start_pos_raw s))))"

definition end_pos :: "ref \<Rightarrow> pos option hm" where
  "end_pos self =
     bnd (attr self simple_of) (\<lambda>s.
     case end_pos_raw s of
       None \<Rightarrow> ret None
     | Some e \<Rightarrow> bnd (attr (module s) module_of) (\<lambda>mf. ret (Some (line_offset mf + fst e, snd e))))"

definition set_start_pos :: "ref \<Rightarrow> pos \<Rightarrow> unit hm" where
  "set_start_pos self v = upd self (map_simple (\<lambda>s. s\<lparr>start_pos_raw := v\<rparr>))"

definition set_end_pos :: "ref \<Rightarrow> pos option \<Rightarrow> unit hm" where
  "set_end_pos self v = upd self (map_simple (\<lambda>s. s\<lparr>end_pos_raw := v\<rparr>))"

definition get_use_as_parent :: "ref \<Rightarrow> ref hm" where
  "get_use_as_parent self = bnd (attr self simple_of) (\<lambda>s. ret (use_as_parent s))"

fun parent_of :: "node \<Rightarrow> ref option option" where
  "parent_of (Call c) = Some (call_parent c)"
| "parent_of (Array c _) = Some (call_parent c)"
| "parent_of (ListComprehension _ _ _) = None"
| "parent_of nd = map_option parent (simple_of nd)"

definition get_parent :: "ref \<Rightarrow> ref option hm" where
  "get_parent self = attr self parent_of"

text \<open>
  The assignment \<open>x.parent = value\<close>. For a \<open>Flow\<close> it is the property setter
  \<^verbatim>\<open>
    self._parent = value
    if self.next:
        self.next.parent = value\<close>
  and for the other classes a plain attribute write (a \<open>ListComprehension\<close> takes any
  attribute, none of which the model reads).
\<close>

primrec set_parent :: "nat \<Rightarrow> ref \<Rightarrow> ref option \<Rightarrow> unit hm" where
  "set_parent 0 self v = raise OutOfFuel"
| "set_parent (Suc n) self v =
     bnd (get_node self) (\<lambda>nd.
       case flow_of nd of
         Some f \<Rightarrow>
           thn (upd self (map_simple (\<lambda>s. s\<lparr>parent := v\<rparr>)))
               (case next_flow f of Some nx \<Rightarrow> set_parent n nx v | None \<Rightarrow> ret ())
       | None \<Rightarrow>
           (case nd of
              ListComprehension _ _ _ \<Rightarrow> ret ()
            | Call _ \<Rightarrow> upd self (map_call (\<lambda>c. c\<lparr>call_parent := v\<rparr>))
            | Array _ _ \<Rightarrow> upd self (map_call (\<lambda>c. c\<lparr>call_parent := v\<rparr>))
            | _ \<Rightarrow> upd self (map_simple (\<lambda>s. s\<lparr>parent := v\<rparr>))))"

text \<open>
  \<open>get_parent_until(classes)\<close> with \<open>reverse=False\<close> and \<open>include_current=True\<close>, the
  only way the parser calls it; \<open>isinst\<close> is \<open>scope.isinstance(*classes)\<close>.
\<close>

primrec get_parent_until :: "nat \<Rightarrow> (node \<Rightarrow> bool) \<Rightarrow> ref \<Rightarrow> ref hm" where
  "get_parent_until 0 isinst scope' = raise OutOfFuel"
| "get_parent_until (Suc n) isinst scope' =
     bnd (get_parent scope') (\<lambda>p.
       case p of
         None \<Rightarrow> ret scope'
       | Some pr \<Rightarrow> bnd (get_node scope') (\<lambda>nd.
           if isinst nd then ret scope' else get_parent_until n isinst pr))"

definition set_decorators :: "ref \<Rightarrow> ref option list \<Rightarrow> unit hm" where
  \<comment> \<open>\<open>sub.decorators = decorators\<close>, \<open>sub\<close> a \<open>Class\<close> or a \<open>Function\<close>\<close>
  "set_decorators sub ds =
     upd sub (\<lambda>nd. case nd of
        Class s sc cf \<Rightarrow> Some (Class s sc (cf\<lparr>c_decorators := ds\<rparr>))
      | Function s sc ff \<Rightarrow> Some (Function s sc (ff\<lparr>f_decorators := ds\<rparr>))
      | Lambda s sc ff \<Rightarrow> Some (Lambda s sc (ff\<lparr>f_decorators := ds\<rparr>))
      | _ \<Rightarrow> Some nd)"

definition set_parent_opt :: "nat \<Rightarrow> ref option \<Rightarrow> ref option \<Rightarrow> unit hm" where
  \<comment> \<open>\<open>x.parent = value\<close> where \<open>x\<close> may be \<open>None\<close>\<close>
  "set_parent_opt n x v = (case x of None \<Rightarrow> raise AttributeError | Some r \<Rightarrow> set_parent n r v)"

definition add_scope :: "nat \<Rightarrow> ref \<Rightarrow> ref \<Rightarrow> ref option list \<Rightarrow> ref hm" where
  "add_scope n self sub decorators =
     bnd (get_use_as_parent self) (\<lambda>uap.
     thn (set_parent n sub (Some uap))
    (thn (set_decorators sub decorators)
    (thn (for_each decorators (\<lambda>d. set_parent_opt n d (Some uap)))
    (thn (upd self (map_scope (\<lambda>sc. sc\<lparr>subscopes := subscopes sc @ [sub]\<rparr>)))
         (ret sub)))))"

definition add_statement :: "nat \<Rightarrow> ref \<Rightarrow> ref \<Rightarrow> ref hm" where
  "add_statement n self stmt =
     bnd (get_use_as_parent self) (\<lambda>uap.
     thn (set_parent n stmt (Some uap))
    (thn (upd self (map_scope (\<lambda>sc. sc\<lparr>statements := statements sc @ [stmt]\<rparr>)))
         (ret stmt)))"

definition add_import :: "nat \<Rightarrow> ref \<Rightarrow> ref \<Rightarrow> unit hm" where
  "add_import n self imp =
     thn (upd self (map_scope (\<lambda>sc. sc\<lparr>imports_l := imports_l sc @ [imp]\<rparr>)))
    (bnd (get_use_as_parent self) (\<lambda>uap. set_parent n imp (Some uap)))"

text \<open>
  \<open>literal_eval\<close> and \<open>cleandoc\<close> come from \<^verbatim>\<open>_compatibility\<close> and \<open>kwlist\<close> from the
  standard module \<^verbatim>\<open>keyword\<close>; none is part of these files: they are parameters of the model.
\<close>

record env =
  literal_eval :: "string \<Rightarrow> exc + pyval"
  cleandoc :: "pyval \<Rightarrow> exc + string"
  kwlist :: "string list"

definition lift_sum :: "exc + 'a \<Rightarrow> ('s, 'a) m" where
  "lift_sum r = (case r of Inl e \<Rightarrow> raise e | Inr x \<Rightarrow> ret x)"

definition add_docstr :: "env \<Rightarrow> ref \<Rightarrow> string \<Rightarrow> unit hm" where
  \<comment> \<open>\<open>self.docstr = cleandoc(literal_eval(string))\<close>\<close>
  "add_docstr E self string' =
     bnd (lift_sum (literal_eval E string')) (\<lambda>v.
     bnd (lift_sum (cleandoc E v)) (\<lambda>d.
     upd self (map_scope (\<lambda>sc. sc\<lparr>docstr := d\<rparr>))))"

definition new_SubModule :: "string option \<Rightarrow> pos \<Rightarrow> ref hm" where
  \<comment> \<open>\<open>SubModule(path, start_pos, top_module=None)\<close>: \<open>use_as_parent = top_module or self\<close>\<close>
  "new_SubModule path' start_pos' =
     bnd get_st (\<lambda>h. let self = length h in
     alloc (SubModule (Simple_init self self start_pos' None) Scope_init
              \<lparr>path = path', global_vars = [], name_cache = None, used_names = [],
               temp_used_names = [], line_offset = 0\<rparr>))"

definition add_global :: "ref \<Rightarrow> ref \<Rightarrow> unit hm" where
  "add_global self nm = upd self (map_module (\<lambda>mf. mf\<lparr>global_vars := global_vars mf @ [nm]\<rparr>))"

definition new_Class :: "nat \<Rightarrow> ref \<Rightarrow> ref \<Rightarrow> ref list \<Rightarrow> pos \<Rightarrow> ref hm" where
  "new_Class n module' name' supers' start_pos' =
     bnd get_st (\<lambda>h. let self = length h in
     thn (alloc (Class (Simple_init self module' start_pos' None) Scope_init
                   \<lparr>c_name = name', supers = supers', c_decorators = []\<rparr>))
    (bnd (get_use_as_parent self) (\<lambda>uap.
     thn (set_parent n name' (Some uap))
    (thn (for_each supers' (\<lambda>s. set_parent n s (Some uap)))
         (ret self)))))"

definition set_parent_function :: "ref \<Rightarrow> ref option \<Rightarrow> unit hm" where
  "set_parent_function p v = upd p (map_param (\<lambda>pf. pf\<lparr>parent_function := v\<rparr>))"

definition new_Function ::
  "nat \<Rightarrow> bool \<Rightarrow> ref \<Rightarrow> ref option \<Rightarrow> ref list \<Rightarrow> pos \<Rightarrow> ref option \<Rightarrow> ref hm" where
  \<comment> \<open>\<open>Function(module, name, params, start_pos, annotation)\<close>; with \<open>is_lambda\<close> the
      object is a \<open>Lambda\<close>, whose constructor passes \<open>name = None\<close> and \<open>annotation = None\<close>\<close>
  "new_Function n is_lambda module' name' params' start_pos' annotation' =
     bnd get_st (\<lambda>h. let self = length h;
                         ff = \<lparr>f_name = name', params = params', f_decorators = [],
                               returns = [], is_generator = False, annotation = annotation'\<rparr>;
                         s = Simple_init self module' start_pos' None in
     thn (alloc (if is_lambda then Lambda s Scope_init ff else Function s Scope_init ff))
    (bnd (get_use_as_parent self) (\<lambda>uap.
     thn (case name' of None \<Rightarrow> ret () | Some nm \<Rightarrow> set_parent n nm (Some uap))
    (thn (for_each params' (\<lambda>p. thn (set_parent n p (Some uap)) (set_parent_function p (Some uap))))
    (thn (case annotation' of None \<Rightarrow> ret () | Some a \<Rightarrow> set_parent n a (Some uap))
         (ret self))))))"

definition new_Flow :: "nat \<Rightarrow> ref \<Rightarrow> string \<Rightarrow> ref list \<Rightarrow> pos \<Rightarrow> ref hm" where
  \<comment> \<open>\<open>Flow(module, command, inits, start_pos)\<close>, \<open>set_vars=None\<close>\<close>
  "new_Flow n module' command' inits' start_pos' =
     bnd get_st (\<lambda>h. let self = length h in
     thn (alloc (Flow (Simple_init self module' start_pos' None) Scope_init
                   \<lparr>next_flow = None, command = command', inits = inits', set_vars = []\<rparr>))
    (bnd (get_use_as_parent self) (\<lambda>uap.
     thn (for_each inits' (\<lambda>s. set_parent n s (Some uap)))
         (ret self))))"

definition new_ForFlow :: "nat \<Rightarrow> ref \<Rightarrow> ref list \<Rightarrow> pos \<Rightarrow> ref option \<Rightarrow> ref hm" where
  \<comment> \<open>\<open>ForFlow(module, inits, start_pos, set_stmt)\<close>: \<open>set_stmt.used_vars\<close> is read first\<close>
  "new_ForFlow n module' inits' start_pos' set_stmt =
     (case set_stmt of
        None \<Rightarrow> raise AttributeError
      | Some st \<Rightarrow>
          bnd (attr st statement_of) (\<lambda>sf. let sv = used_vars sf in
          bnd get_st (\<lambda>h. let self = length h in
          thn (alloc (ForFlow (Simple_init self module' start_pos' None) Scope_init
                        \<lparr>next_flow = None, command = ''for'', inits = inits', set_vars = sv\<rparr>
                        st False))
         (bnd (get_use_as_parent self) (\<lambda>uap.
          thn (for_each inits' (\<lambda>s. set_parent n s (Some uap)))
         (thn (for_each sv (\<lambda>s.
                 bnd (get_parent s) (\<lambda>p.
                 thn (set_parent_opt n p (Some uap))
                     (set_parent n s (Some uap)))))
              (ret self)))))))"

primrec set_next :: "nat \<Rightarrow> ref \<Rightarrow> ref \<Rightarrow> ref hm" where
  "set_next 0 self nxt = raise OutOfFuel"
| "set_next (Suc n) self nxt =
     bnd (attr self flow_of) (\<lambda>f.
       case next_flow f of
         Some nx \<Rightarrow> set_next n nx nxt
       | None \<Rightarrow>
           thn (upd self (map_flow (\<lambda>f. f\<lparr>next_flow := Some nxt\<rparr>)))
          (bnd (get_parent self) (\<lambda>p.
           thn (set_parent n nxt p)
               (ret nxt))))"

section \<open>Import, Name, Statement and Param\<close>

abbreviation newline :: string where
  "newline \<equiv> [CHR 0x0A]"

fun join :: "string \<Rightarrow> string list \<Rightarrow> string" where
  \<comment> \<open>\<open>sep.join(xs)\<close>\<close>
  "join sep [] = []"
| "join sep [x] = x"
| "join sep (x # y # ys) = x @ sep @ join sep (y # ys)"

definition new_Name :: "ref \<Rightarrow> (string \<times> pos) list \<Rightarrow> pos \<Rightarrow> pos option \<Rightarrow> ref option \<Rightarrow> ref hm" where
  \<comment> \<open>\<open>Name(module, names, start_pos, end_pos, parent)\<close>; every entry of \<open>names\<close> becomes a
      \<open>NamePart\<close>, a string with its own start position\<close>
  "new_Name module' names start_pos' end_pos' parent' =
     bnd get_st (\<lambda>h. let self = length h in
     alloc (Name ((Simple_init self module' start_pos' end_pos')\<lparr>parent := parent'\<rparr>) names))"

definition Name_get_code :: "ref \<Rightarrow> string hm" where
  "Name_get_code self = bnd (attr self names_of) (\<lambda>ns. ret (join ''.'' (map fst ns)))"

definition new_Import ::
  "nat \<Rightarrow> ref \<Rightarrow> pos \<Rightarrow> pos \<Rightarrow> dot_name \<Rightarrow> dot_name \<Rightarrow> dot_name \<Rightarrow> bool \<Rightarrow> int \<Rightarrow> bool \<Rightarrow> ref hm" where
  \<comment> \<open>\<open>Import(module, start_pos, end_pos, namespace, alias, from_ns, star, relative_count,
      defunct)\<close>; \<open>if n:\<close> holds for a \<open>Name\<close> with at least one part\<close>
  "new_Import n module' start_pos' end_pos' namespace' alias' from_ns' star' relative_count' defunct' =
     bnd get_st (\<lambda>h. let self = length h in
     thn (alloc (Import (Simple_init self module' start_pos' (Some end_pos'))
                   \<lparr>namespace = namespace', alias_n = alias', from_ns = from_ns', star = star',
                    relative_count = relative_count', defunct = defunct'\<rparr>))
    (bnd (get_use_as_parent self) (\<lambda>uap.
     thn (for_each [namespace', alias', from_ns']
            (\<lambda>x. case x of
                   DN_Name r \<Rightarrow> bnd get_st (\<lambda>h. whenM (truthy h r) (set_parent n r (Some uap)))
                 | _ \<Rightarrow> ret ()))
         (ret self))))"

definition dn_truthy :: "heap \<Rightarrow> dot_name \<Rightarrow> bool" where
  "dn_truthy h x = (case x of DN_Name r \<Rightarrow> truthy h r | _ \<Rightarrow> False)"

definition Import_get_defined_names :: "ref \<Rightarrow> ref list hm" where
  "Import_get_defined_names self =
     bnd (attr self import_of) (\<lambda>i.
     bnd get_st (\<lambda>h.
     if defunct i then ret []
     else if star i then ret [self]
     else if dn_truthy h (alias_n i)
       then ret (case alias_n i of DN_Name a \<Rightarrow> [a] | _ \<Rightarrow> [])
     else (case namespace i of
             DN_None \<Rightarrow> raise TypeError
           | DN_Empty \<Rightarrow> raise Unmodelled
           | DN_Name o' \<Rightarrow>
               bnd (attr o' names_of) (\<lambda>ns.
               if length ns > 1 then
                 bnd (attr o' simple_of) (\<lambda>os.
                 bnd (start_pos o') (\<lambda>sp.
                 bnd (end_pos o') (\<lambda>ep.
                 bnd (attr self simple_of) (\<lambda>s.
                 bnd (new_Name (module s) [(fst (hd ns), sp)] sp ep (parent os)) (\<lambda>nm.
                 ret [nm])))))
               else ret [o']))))"

text \<open>
  \<open>_remove_executions_from_set_vars\<close>. Python builds \<open>set(set_vars)\<close> and returns
  \<open>list(result)\<close>, whose order the language leaves open; the model keeps the order of
  \<open>set_vars\<close>. \<open>last\<close> is only tested for being a \<open>Name\<close>.
\<close>

fun remove_executions_loop :: "heap \<Rightarrow> tok_item list \<Rightarrow> ref list \<Rightarrow> bool \<Rightarrow> int \<Rightarrow> ref list" where
  "remove_executions_loop h [] result' last_is_name in_execution = result'"
| "remove_executions_loop h (TokObj r # ts) result' last_is_name in_execution =
     (if isinstance_Name h r then
        (if r \<notin> set result' then result'
         else remove_executions_loop h ts
                (if in_execution \<noteq> 0 then removeAll r result' else result') True in_execution)
      else remove_executions_loop h ts result' False in_execution)"
| "remove_executions_loop h (TokTuple _ tok _ # ts) result' last_is_name in_execution =
     remove_executions_loop h ts result' False
       (if tok \<in> set [''('', ''[''] \<and> last_is_name then in_execution + 1
        else if tok \<in> set ['')'', '']''] \<and> in_execution > 0 then in_execution - 1
        else in_execution)"

definition remove_executions_from_set_vars :: "heap \<Rightarrow> tok_item list \<Rightarrow> ref list \<Rightarrow> ref list" where
  "remove_executions_from_set_vars h token_list' set_vars' =
     (if set_vars' = [] then set_vars'
      else remove_executions_loop h token_list' (remdups set_vars') False 0)"

definition new_Statement ::
  "nat \<Rightarrow> bool \<Rightarrow> ref \<Rightarrow> string \<Rightarrow> ref list \<Rightarrow> ref list \<Rightarrow> ref list \<Rightarrow> tok_item list \<Rightarrow> pos \<Rightarrow> pos \<Rightarrow> ref hm" where
  \<comment> \<open>\<open>stmt_class(module, code, set_vars, used_funcs, used_vars, token_list, start_pos,
      end_pos)\<close>; \<open>stmt_class\<close> is \<open>Param\<close> when \<open>is_param\<close>, else \<open>Statement\<close>\<close>
  "new_Statement n is_param module' code' set_vars' used_funcs' used_vars' token_list' start_pos' end_pos' =
     bnd get_st (\<lambda>h. let self = length h;
                         s = Simple_init self module' start_pos' (Some end_pos');
                         sf = \<lparr>code = code', used_funcs = used_funcs', used_vars = used_vars',
                               token_list = token_list', s_set_vars = [],
                               assignment_calls_cache = None, assignment_details_cache = None,
                               assignment_calls_calculated = False\<rparr> in
     thn (alloc (if is_param
                 then Param s sf \<lparr>position_nr = None, is_generated = False,
                                  annotation_stmt = None, parent_function = None\<rparr>
                 else Statement s sf))
    (bnd (get_use_as_parent self) (\<lambda>uap.
     thn (for_each (set_vars' @ used_funcs' @ used_vars') (\<lambda>x. set_parent n x (Some uap)))
    (bnd get_st (\<lambda>h'.
     thn (upd self (map_statement (\<lambda>f. f\<lparr>s_set_vars :=
                      remove_executions_from_set_vars h' token_list' set_vars'\<rparr>)))
         (ret self))))))"

definition add_annotation :: "nat \<Rightarrow> ref \<Rightarrow> ref \<Rightarrow> unit hm" where
  "add_annotation n self annotation_stmt' =
     bnd (get_use_as_parent self) (\<lambda>uap.
     thn (set_parent n annotation_stmt' (Some uap))
         (upd self (map_param (\<lambda>pf. pf\<lparr>annotation_stmt := Some annotation_stmt'\<rparr>))))"

definition Statement_get_code :: "ref \<Rightarrow> bool \<Rightarrow> string hm" where
  "Statement_get_code self new_line =
     bnd (attr self statement_of) (\<lambda>sf. ret (if new_line then code sf @ newline else code sf))"

definition get_set_vars :: "ref \<Rightarrow> ref list hm" where
  \<comment> \<open>\<open>simple.get_set_vars()\<close> for the two classes \<open>_check_user_stmt\<close> is called with\<close>
  "get_set_vars self =
     bnd (get_node self) (\<lambda>nd.
       case nd of
         Statement _ sf \<Rightarrow> ret (s_set_vars sf)
       | Param _ sf _ \<Rightarrow> ret (s_set_vars sf)
       | Import _ _ \<Rightarrow> Import_get_defined_names self
       | _ \<Rightarrow> raise Unmodelled)"

definition new_ListComprehension :: "ref \<Rightarrow> ref \<Rightarrow> ref \<Rightarrow> ref hm" where
  "new_ListComprehension stmt middle input' = alloc (ListComprehension stmt middle input')"

definition ListComprehension_get_code :: "ref \<Rightarrow> string hm" where
  \<comment> \<open>\<open>"%s for %s in %s" % tuple(s.get_code().replace('\n', '') for s in statements)\<close>\<close>
  "ListComprehension_get_code self =
     bnd (get_node self) (\<lambda>nd.
       case nd of
         ListComprehension stmt middle input' \<Rightarrow>
           bnd (Statement_get_code stmt True) (\<lambda>a.
           bnd (Statement_get_code middle True) (\<lambda>b.
           bnd (Statement_get_code input' True) (\<lambda>c.
           ret (filter (\<lambda>ch. ch \<noteq> CHR 0x0A) a @ '' for '' @ filter (\<lambda>ch. ch \<noteq> CHR 0x0A) b
                @ '' in '' @ filter (\<lambda>ch. ch \<noteq> CHR 0x0A) c))))
       | _ \<Rightarrow> raise AttributeError)"

fun collect :: "'a list \<Rightarrow> ('a \<Rightarrow> ('s, 'b) m) \<Rightarrow> ('s, 'b list) m" where
  "collect [] f = ret []"
| "collect (x # xs) f = bnd (f x) (\<lambda>y. bnd (collect xs f) (\<lambda>ys. ret (y # ys)))"

definition Lambda_get_code :: "ref \<Rightarrow> string hm" where
  \<comment> \<open>\<open>"lambda %s:" % params + Scope.get_code(self)\<close>. The parser gives a \<open>Lambda\<close> no
      docstring, imports, sub-scopes or statements, only \<open>returns\<close>; \<open>Scope.get_code\<close> on
      anything else needs \<^verbatim>\<open>common.indent_block\<close> and the other classes' \<open>get_code\<close>.\<close>
  "Lambda_get_code self =
     bnd (get_node self) (\<lambda>nd.
       case nd of
         Lambda s sc ff \<Rightarrow>
           if docstr sc \<noteq> [] \<or> imports_l sc \<noteq> [] \<or> subscopes sc \<noteq> [] \<or> statements sc \<noteq> []
           then raise Unmodelled
           else
             bnd (collect (params ff) (\<lambda>p. Statement_get_code p False)) (\<lambda>ps.
             bnd (collect (returns ff)
                    (\<lambda>r. case r of None \<Rightarrow> raise AttributeError
                                  | Some r' \<Rightarrow> Statement_get_code r' True)) (\<lambda>rs.
             ret (''lambda '' @ join '','' ps @ '':'' @ concat rs)))
       | _ \<Rightarrow> raise Unmodelled)"

section \<open>Call and Array\<close>

definition new_Call :: "call_name \<Rightarrow> call_type \<Rightarrow> pos \<Rightarrow> ref option \<Rightarrow> ref option \<Rightarrow> ref hm" where
  \<comment> \<open>\<open>Call(name, type, start_pos, parent_stmt, parent)\<close>\<close>
  "new_Call name' type' start_pos' parent_stmt' parent' =
     alloc (Call \<lparr>name = name', call_parent = parent', type_c = type',
                  call_start_pos = start_pos', next_call = None, execution = None,
                  parent_stmt_raw = parent_stmt', call_end_pos = None\<rparr>)"

definition new_Array :: "pos \<Rightarrow> call_type \<Rightarrow> ref option \<Rightarrow> ref option \<Rightarrow> ref hm" where
  \<comment> \<open>\<open>Array(start_pos, arr_type, parent_stmt, parent)\<close>, \<open>values=None\<close>\<close>
  "new_Array start_pos' arr_type parent_stmt' parent' =
     alloc (Array \<lparr>name = CNone, call_parent = parent', type_c = arr_type,
                   call_start_pos = start_pos', next_call = None, execution = None,
                   parent_stmt_raw = parent_stmt', call_end_pos = None\<rparr>
                  \<lparr>values_l = [], arr_el_pos = [], keys_l = []\<rparr>)"

definition set_next_chain_call :: "ref \<Rightarrow> ref \<Rightarrow> ref hm" where
  "set_next_chain_call self call =
     thn (upd self (map_call (\<lambda>c. c\<lparr>next_call := Some call\<rparr>)))
    (bnd (attr self call_of) (\<lambda>c.
     thn (upd call (map_call (\<lambda>c'. c'\<lparr>call_parent := call_parent c\<rparr>)))
         (ret call)))"

definition add_execution :: "ref \<Rightarrow> ref \<Rightarrow> ref hm" where
  "add_execution self call =
     thn (upd self (map_call (\<lambda>c. c\<lparr>execution := Some call\<rparr>)))
    (bnd (attr self call_of) (\<lambda>c.
     case call_parent c of
       None \<Rightarrow> raise AttributeError
     | Some p \<Rightarrow>
         bnd (attr p call_of) (\<lambda>pc.
         thn (upd call (map_call (\<lambda>c'. c'\<lparr>call_parent :=
                  (if execution pc = Some self then Some p else Some self)\<rparr>)))
             (ret call))))"

definition set_call_end_pos :: "ref \<Rightarrow> pos option \<Rightarrow> unit hm" where
  \<comment> \<open>\<open>x.end_pos = value\<close> on a \<open>Call\<close> or an \<open>Array\<close>\<close>
  "set_call_end_pos self v = upd self (map_call (\<lambda>c. c\<lparr>call_end_pos := v\<rparr>))"

definition add_field :: "ref \<Rightarrow> pos \<Rightarrow> unit hm" where
  "add_field self start_pos' =
     upd self (map_array (\<lambda>a. a\<lparr>arr_el_pos := arr_el_pos a @ [start_pos'],
                                 values_l := values_l a @ [[]]\<rparr>))"

definition Array_add_to_current_field :: "call_f \<Rightarrow> array_f \<Rightarrow> field_item \<Rightarrow> node" where
  \<comment> \<open>\<^verbatim>\<open>
    if not self.values:
        if self.type == Array.TUPLE:
            self.type = Array.NOARRAY
        self.values.append([])
    self.values[-1].append(tok)\<close>\<close>
  "Array_add_to_current_field c a tok =
     (let c1 = (if values_l a = [] \<and> type_c c = TUPLE then c\<lparr>type_c := NOARRAY\<rparr> else c);
          vs = (if values_l a = [] then [[]] else values_l a)
      in Array c1 (a\<lparr>values_l := butlast vs @ [last vs @ [tok]]\<rparr>))"

definition add_to_current_field :: "ref \<Rightarrow> field_item \<Rightarrow> unit hm" where
  "add_to_current_field self tok =
     upd self (\<lambda>nd. case nd of Array c a \<Rightarrow> Some (Array_add_to_current_field c a tok)
                            | _ \<Rightarrow> None)"

definition add_dictionary_key :: "ref \<Rightarrow> unit hm" where
  "add_dictionary_key self =
     bnd (get_node self) (\<lambda>nd.
       case nd of
         Array c a \<Rightarrow>
           if type_c c = LIST \<or> type_c c = TUPLE then ret ()
           else if values_l a = [] then raise IndexError
           else put_node self
                  (Array (if type_c c = SET then c\<lparr>type_c := DICT\<rparr> else c)
                         (a\<lparr>keys_l := keys_l a @ [last (values_l a)],
                            values_l := butlast (values_l a) @ [[]]\<rparr>))
       | _ \<Rightarrow> raise AttributeError)"

definition set_type :: "ref \<Rightarrow> call_type \<Rightarrow> unit hm" where
  "set_type self t = upd self (map_call (\<lambda>c. c\<lparr>type_c := t\<rparr>))"

section \<open>Statement.get_assignment_calls\<close>

text \<open>The local variables of \<open>get_assignment_calls\<close>; \<open>tok\<close> and \<open>start_pos\<close> are
  unbound (\<open>None\<close>) until a token has been unpacked.\<close>

record gac =
  top :: ref
  result :: "ref option"
  level :: int
  is_chain :: bool
  close_brackets :: bool
  tok_v :: "tokv option"
  start_pos_v :: "pos option"

definition is_call :: "heap \<Rightarrow> ref option \<Rightarrow> bool" where
  \<comment> \<open>\<open>type(result) == Call\<close>\<close>
  "is_call h r = (case r of None \<Rightarrow> False | Some r' \<Rightarrow> r' < length h \<and> is_plain_Call (h ! r'))"

definition the_result :: "gac \<Rightarrow> ref hm" where
  \<comment> \<open>an attribute access on \<open>result\<close>, which may be \<open>None\<close>\<close>
  "the_result L = (case result L of None \<Rightarrow> raise AttributeError | Some r \<Rightarrow> ret r)"

text \<open>\<^verbatim>\<open>
    while is_call_or_close():
        result = result.parent
        close_brackets = False\<close>\<close>

primrec ascend :: "nat \<Rightarrow> gac \<Rightarrow> gac hm" where
  "ascend 0 L = raise OutOfFuel"
| "ascend (Suc n) L =
     bnd get_st (\<lambda>h.
       if is_call h (result L) \<or> close_brackets L then
         bnd (the_result L) (\<lambda>r.
         bnd (get_parent r) (\<lambda>p.
         ascend n (L\<lparr>result := p, close_brackets := False\<rparr>)))
       else ret L)"

definition brackets :: "string \<Rightarrow> call_type option" where
  \<comment> \<open>\<open>{'(': Array.TUPLE, '[': Array.LIST, '{': Array.SET}\<close>\<close>
  "brackets t = (if t = ''('' then Some TUPLE else if t = ''['' then Some LIST
                 else if t = ''{'' then Some SET else None)"

definition array_len :: "ref \<Rightarrow> nat hm" where
  \<comment> \<open>\<open>len(result)\<close>: \<open>Array.__len__\<close>; \<open>None\<close> and a \<open>Call\<close> have no length\<close>
  "array_len r = bnd (get_node r) (\<lambda>nd. case nd of Array _ a \<Rightarrow> ret (length (values_l a))
                                               | _ \<Rightarrow> raise TypeError)"

definition gac_dispatch :: "env \<Rightarrow> nat \<Rightarrow> token_type option \<Rightarrow> tokv \<Rightarrow> pos \<Rightarrow> gac \<Rightarrow> gac hm" where
  \<comment> \<open>the part of the loop body after \<open># here starts the statement creation madness!\<close>\<close>
  "gac_dispatch E n token_type' tok start_pos' L0 =
     (let L = L0\<lparr>tok_v := Some tok, start_pos_v := Some start_pos'\<rparr>;
          is_literal = (token_type' = Some STRING \<or> token_type' = Some NUMBER) in
      bnd get_st (\<lambda>h.
      if (case tok of Ob r \<Rightarrow> isinstance_Name h r | S _ \<Rightarrow> False) \<or> is_literal then
        bnd (case tok of
               S t \<Rightarrow> bnd (lift_sum (literal_eval E t)) (\<lambda>v.
                        ret (CLit v, if token_type' = Some STRING then Call_STRING else Call_NUMBER))
             | Ob r \<Rightarrow> ret (CName r, Call_NAME)) (\<lambda>(nm, c_type).
        if is_chain L then
          bnd (new_Call nm c_type start_pos' None (result L)) (\<lambda>call.
          bnd (the_result L) (\<lambda>r.
          bnd (set_next_chain_call r call) (\<lambda>r'.
          ret (L\<lparr>result := Some r', is_chain := False, close_brackets := False\<rparr>))))
        else
          bnd (if close_brackets L
               then bnd (the_result L) (\<lambda>r. bnd (get_parent r) (\<lambda>p.
                      ret (L\<lparr>result := p, close_brackets := False\<rparr>)))
               else ret L) (\<lambda>L1.
          bnd get_st (\<lambda>h1.
          bnd (if is_call h1 (result L1)
               then bnd (the_result L1) (\<lambda>r. bnd (get_parent r) (\<lambda>p. ret (L1\<lparr>result := p\<rparr>)))
               else ret L1) (\<lambda>L2.
          bnd (new_Call nm c_type start_pos' None (result L2)) (\<lambda>call.
          bnd (the_result L2) (\<lambda>r.
          thn (add_to_current_field r (FObj call))
              (ret (L2\<lparr>result := Some call\<rparr>))))))))
      else
        (case (case tok of S t \<Rightarrow> brackets t | Ob _ \<Rightarrow> None) of
           Some arr_type \<Rightarrow>
             (let L1 = L\<lparr>level := level L + 1\<rparr> in
              if is_call h (result L1) \<or> close_brackets L1 then
                bnd (new_Array start_pos' arr_type None (result L1)) (\<lambda>arr.
                bnd (the_result L1) (\<lambda>r.
                bnd (add_execution r arr) (\<lambda>r'.
                ret (L1\<lparr>result := Some r', close_brackets := False\<rparr>))))
              else
                bnd (new_Array start_pos' arr_type None (result L1)) (\<lambda>arr.
                bnd (the_result L1) (\<lambda>r.
                thn (add_to_current_field r (FObj arr))
                    (ret (L1\<lparr>result := Some arr\<rparr>)))))
         | None \<Rightarrow>
             if tok = S '':'' then
               bnd (ascend n L) (\<lambda>L1.
               bnd (the_result L1) (\<lambda>r.
               bnd (attr r call_of) (\<lambda>c.
               thn (if type_c c = LIST then add_to_current_field r (FStr '':'')
                    else add_dictionary_key r)
                   (ret L1))))
             else if tok = S ''.'' then
               bnd (if close_brackets L
                    then bnd (the_result L) (\<lambda>r. bnd (get_parent r) (\<lambda>p.
                           ret (if p \<noteq> Some (top L) then L\<lparr>result := p, close_brackets := False\<rparr>
                                else L)))
                    else ret L) (\<lambda>L1.
               ret (L1\<lparr>is_chain := True\<rparr>))
             else if tok = S '','' then
               bnd (ascend n L) (\<lambda>L1.
               bnd (the_result L1) (\<lambda>r.
               thn (add_field r (fst start_pos', snd start_pos' + 1))
              (bnd (attr r call_of) (\<lambda>c.
               thn (whenM (type_c c = NOARRAY) (set_type r TUPLE))
                   (ret L1)))))
             else if tok \<in> set [S '')'', S ''}'', S '']''] then
               bnd (ascend n L) (\<lambda>L1.
               thn (if tok = S ''}''
                    then (case result L1 of
                            None \<Rightarrow> raise TypeError
                          | Some r \<Rightarrow> bnd (array_len r) (\<lambda>k. whenM (k = 0) (set_type r DICT)))
                    else ret ())
              (bnd (the_result L1) (\<lambda>r.
               thn (set_call_end_pos r (Some (fst start_pos', snd start_pos' + 1)))
                   (ret (L1\<lparr>level := level L1 - 1, close_brackets := True\<rparr>)))))
             else
               bnd (ascend n L) (\<lambda>L1.
               if tok \<noteq> S newline then
                 bnd (the_result L1) (\<lambda>r.
                 thn (add_to_current_field r (case tok of S t \<Rightarrow> FStr t | Ob o' \<Rightarrow> FObj o'))
                     (ret L1))
               else ret L1))))"

text \<open>
  The loop \<open>for i, tok_temp in tok_iter\<close>. \<open>skip\<close> is set by \<open>next(tok_iter, None)\<close>
  after an \<open>as\<close>: the following entry is passed over.
\<close>

primrec gac_loop :: "tok_item list \<Rightarrow> env \<Rightarrow> nat \<Rightarrow> ref \<Rightarrow> bool \<Rightarrow> gac \<Rightarrow> gac hm" where
  "gac_loop [] E n self skip L = ret L"
| "gac_loop (t # ts) E n self skip L =
     (if skip then gac_loop ts E n self False L
      else case t of
        TokObj r \<Rightarrow>
          bnd get_st (\<lambda>h.
          if isinstance_ListComprehension h r then
            bnd (the_result L) (\<lambda>res.
            thn (add_to_current_field res (FObj r))
                (gac_loop ts E n self False L))
          else
            bnd (start_pos r) (\<lambda>sp.
            bnd (gac_dispatch E n None (Ob r) sp L) (\<lambda>L'.
            gac_loop ts E n self False L')))
      | TokTuple token_type' tok start_pos' \<Rightarrow>
          if level L = 0 \<and> endswith tok ''='' \<and> tok \<notin> set [''>='', ''<='', ''=='', ''!='']
          then
            thn (upd self (map_statement (\<lambda>sf. sf\<lparr>assignment_details_cache :=
                   Some ((case assignment_details_cache sf of None \<Rightarrow> [] | Some d \<Rightarrow> d)
                         @ [(tok, top L)])\<rparr>)))
           (bnd (new_Array (fst start_pos', snd start_pos' + int (length tok)) NOARRAY
                   (Some self) None) (\<lambda>a.
            gac_loop ts E n self False
              (L\<lparr>top := a, result := Some a, level := 0, close_brackets := False,
                 is_chain := False, tok_v := Some (S tok), start_pos_v := Some start_pos'\<rparr>)))
          else if tok = ''as'' then
            gac_loop ts E n self True (L\<lparr>tok_v := Some (S tok), start_pos_v := Some start_pos'\<rparr>)
          else
            bnd (gac_dispatch E n (Some token_type') (S tok) start_pos' L) (\<lambda>L'.
            gac_loop ts E n self False L'))"

definition py_len :: "heap \<Rightarrow> tokv \<Rightarrow> int option" where
  \<comment> \<open>\<open>len(tok)\<close>: a string, or an object with \<open>__len__\<close>; \<open>None\<close> is \<open>TypeError\<close>\<close>
  "py_len h tok =
     (case tok of
        S t \<Rightarrow> Some (int (length t))
      | Ob r \<Rightarrow> if r < length h then
                 (case h ! r of Name _ ns \<Rightarrow> Some (int (length ns))
                              | Array _ a \<Rightarrow> Some (int (length (values_l a)))
                              | _ \<Rightarrow> None)
               else None)"

text \<open>\<^verbatim>\<open>
    while result is not None:
        try:
            result.end_pos = start_pos[0], start_pos[1] + len(tok)
        except TypeError:
            result.end_pos = tok.end_pos
        result = result.parent\<close>\<close>

primrec gac_finish :: "nat \<Rightarrow> gac \<Rightarrow> ref option \<Rightarrow> unit hm" where
  "gac_finish 0 L res = raise OutOfFuel"
| "gac_finish (Suc n) L res =
     (case res of
        None \<Rightarrow> ret ()
      | Some r \<Rightarrow>
          (case (start_pos_v L, tok_v L) of
             (Some sp, Some tok) \<Rightarrow>
               bnd get_st (\<lambda>h.
               thn (case py_len h tok of
                      Some k \<Rightarrow> set_call_end_pos r (Some (fst sp, snd sp + k))
                    | None \<Rightarrow> (case tok of
                                 Ob o' \<Rightarrow> bnd (end_pos o') (\<lambda>e. set_call_end_pos r e)
                               | S _ \<Rightarrow> raise TypeError))
              (bnd (get_parent r) (\<lambda>p. gac_finish n L p)))
           | _ \<Rightarrow> raise UnboundLocalError))"

definition get_assignment_calls :: "env \<Rightarrow> nat \<Rightarrow> ref \<Rightarrow> ref option hm" where
  "get_assignment_calls E n self =
     bnd (attr self statement_of) (\<lambda>sf.
     if assignment_calls_calculated sf then ret (assignment_calls_cache sf)
     else
       thn (upd self (map_statement (\<lambda>f. f\<lparr>assignment_details_cache := Some []\<rparr>)))
      (bnd (start_pos self) (\<lambda>sp.
       bnd (new_Array sp NOARRAY (Some self) None) (\<lambda>top0.
       bnd (gac_loop (token_list sf) E n self False
              \<lparr>top = top0, result = Some top0, level = 0, is_chain = False,
               close_brackets = False, tok_v = None, start_pos_v = None\<rparr>) (\<lambda>L.
       thn (if token_list sf \<noteq> [] then gac_finish n L (result L)
            else bnd (the_result L) (\<lambda>r. bnd (end_pos self) (\<lambda>e. set_call_end_pos r e)))
      (thn (upd self (map_statement (\<lambda>f. f\<lparr>assignment_calls_calculated := True,
                                               assignment_calls_cache := Some (top L)\<rparr>)))
           (ret (Some (top L)))))))))"

definition assignment_details :: "env \<Rightarrow> nat \<Rightarrow> ref \<Rightarrow> (string \<times> ref) list hm" where
  \<comment> \<open>the property: \<open>get_assignment_calls()\<close> when the cache is \<open>None\<close>, then
      \<open>self._assignment_details or []\<close>\<close>
  "assignment_details E n self =
     bnd (attr self statement_of) (\<lambda>sf.
     thn (if assignment_details_cache sf = None
          then thn (get_assignment_calls E n self) (ret ()) else ret ())
    (bnd (attr self statement_of) (\<lambda>sf'.
     ret (case assignment_details_cache sf' of None \<Rightarrow> [] | Some d \<Rightarrow> d))))"

section \<open>The parser's state and the token source\<close>

text \<open>
  The attributes of a \<open>Parser\<close> object, the object store, and the token source
  \<open>self._gen\<close>. \<open>current = None\<close> stands for the initial \<open>(None, None)\<close>.
\<close>

record pstate =
  heap :: heap
  gen :: "token list"
  gen_current :: "token option"
  gen_stop :: exc
  user_position :: "pos option"
  user_scope :: "ref option"
  user_stmt :: "ref option"
  no_docstr :: bool
  p_module :: ref
  p_scope :: "ref option"
  current :: "(token_type \<times> string) option"
  last_token :: "(token_type \<times> string) option"
  p_start_pos :: pos
  p_end_pos :: pos
  decorators :: "ref option list"
  freshscope :: bool

type_synonym 'a pm = "(pstate, 'a) m"

definition lift :: "'a hm \<Rightarrow> 'a pm" where
  "lift f = (\<lambda>s. case f (heap s) of (r, h') \<Rightarrow> (r, s\<lparr>heap := h'\<rparr>))"

text \<open>
  Modelled from the spec: \<^verbatim>\<open>common.NoErrorTokenizer\<close>, which is not part of these files.
  The spec (4.2) gives its contract: a lazy, finite sequence of tokens that has already
  recovered from tokenizer errors, ended by \<open>StopIteration\<close> or by
  \<open>MultiLevelStopIteration\<close> (\<open>gen_stop\<close>), with a push-back of the token produced last.
\<close>

definition gen_next :: "token pm" where
  "gen_next = (\<lambda>s. case gen s of
                      [] \<Rightarrow> (Inl (gen_stop s), s)
                    | t # ts \<Rightarrow> (Inr t, s\<lparr>gen := ts, gen_current := Some t\<rparr>))"

definition push_last_back :: "unit pm" where
  "push_last_back = (\<lambda>s. case gen_current s of
                            None \<Rightarrow> (Inl AttributeError, s)
                          | Some t \<Rightarrow> (Inr (), s\<lparr>gen := t # gen s\<rparr>))"

section \<open>Parser.__next__ and Parser._check_user_stmt\<close>

text \<open>\<^verbatim>\<open>
    s = self.scope
    while s is not None:
        s.end_pos = self.end_pos
        s = s.parent\<close>\<close>

primrec close_scopes :: "nat \<Rightarrow> ref option \<Rightarrow> pos \<Rightarrow> unit hm" where
  "close_scopes 0 s' e = raise OutOfFuel"
| "close_scopes (Suc n) s' e =
     (case s' of
        None \<Rightarrow> ret ()
      | Some r \<Rightarrow> thn (set_end_pos r (Some e))
                     (bnd (get_parent r) (\<lambda>p. close_scopes n p e)))"

definition p_next :: "nat \<Rightarrow> (token_type \<times> string) pm" where
  "p_next n =
     bnd (try_except is_stop gen_next
            (\<lambda>e. bnd get_st (\<lambda>s.
                  thn (lift (close_scopes n (p_scope s) (p_end_pos s)))
                      (raise e)))) (\<lambda>(typ, tok, sp, ep).
     thn (modify (\<lambda>s. s\<lparr>p_start_pos := sp, p_end_pos := ep\<rparr>))
    (thn (modify (\<lambda>s.
            case user_position s of
              None \<Rightarrow> s
            | Some up \<Rightarrow>
                if fst (p_start_pos s) = fst up
                   \<or> (user_scope s = None \<and> fst (p_start_pos s) \<ge> fst up)
                then s\<lparr>user_scope := p_scope s\<rparr> else s))
    (thn (modify (\<lambda>s. s\<lparr>last_token := current s, current := Some (typ, tok)\<rparr>))
         (ret (typ, tok)))))"

definition get_current :: "(token_type \<times> string) pm" where
  \<comment> \<open>\<open>self.current\<close>; it is only read after a token has been produced\<close>
  "get_current = bnd get_st (\<lambda>s. case current s of None \<Rightarrow> raise Unmodelled | Some c \<Rightarrow> ret c)"

definition the_scope :: "ref pm" where
  \<comment> \<open>an attribute access on \<open>self.scope\<close>\<close>
  "the_scope = bnd get_st (\<lambda>s. case p_scope s of None \<Rightarrow> raise AttributeError | Some r \<Rightarrow> ret r)"

fun used_names_add :: "(string \<times> ref list) list \<Rightarrow> string \<Rightarrow> ref \<Rightarrow> (string \<times> ref list) list" where
  \<comment> \<open>\<^verbatim>\<open>
    try:
        used_names[tok_name].add(simple)
    except KeyError:
        used_names[tok_name] = set([simple])\<close>\<close>
  "used_names_add [] t x = [(t, [x])]"
| "used_names_add ((k, v) # un) t x =
     (if k = t then (k, if x \<in> set v then v else v @ [x]) # un
      else (k, v) # used_names_add un t x)"

definition update_used_names :: "ref \<Rightarrow> module_f \<Rightarrow> module_f" where
  \<comment> \<open>the first loop of \<open>_check_user_stmt\<close> and \<open>self.module.temp_used_names = []\<close>\<close>
  "update_used_names simple' mf =
     mf\<lparr>used_names := foldl (\<lambda>un t. used_names_add un t simple') (used_names mf)
                          (temp_used_names mf),
        temp_used_names := []\<rparr>"

definition check_user_stmt :: "ref \<Rightarrow> unit pm" where
  "check_user_stmt simple' =
     bnd get_st (\<lambda>s.
     thn (lift (upd (p_module s) (map_module (update_used_names simple'))))
         (case user_position s of
            None \<Rightarrow> ret ()
          | Some up \<Rightarrow>
              bnd (lift (start_pos simple')) (\<lambda>sp.
              if pos_le sp up then
                bnd (lift (end_pos simple')) (\<lambda>ep.
                case ep of
                  None \<Rightarrow> raise TypeError
                | Some ep' \<Rightarrow>
                    if pos_le up ep' then
                      (if user_stmt s \<noteq> None then
                         bnd (lift (get_set_vars simple')) (\<lambda>ns.
                         for_each ns (\<lambda>nm.
                           bnd (lift (start_pos nm)) (\<lambda>nsp.
                           if pos_less nsp up then
                             bnd (lift (end_pos nm)) (\<lambda>nep.
                             case nep of
                               None \<Rightarrow> raise TypeError
                             | Some ne \<Rightarrow> whenM (pos_le up ne)
                                           (modify (\<lambda>s. s\<lparr>user_stmt := Some simple'\<rparr>)))
                           else ret ())))
                       else modify (\<lambda>s. s\<lparr>user_stmt := Some simple'\<rparr>))
                    else ret ())
              else ret ())))"

section \<open>Parser._parse_dot_name and Parser._parse_import_list\<close>

definition dn_append :: "(string \<times> pos) list \<Rightarrow> string \<times> pos \<Rightarrow> (string \<times> pos) list pm" where
  \<comment> \<open>\<^verbatim>\<open>
    def append(el):
        names.append(el)
        self.module.temp_used_names.append(el[0])\<close>\<close>
  "dn_append names el =
     bnd get_st (\<lambda>s.
     thn (lift (upd (p_module s)
                 (map_module (\<lambda>mf. mf\<lparr>temp_used_names := temp_used_names mf @ [fst el]\<rparr>))))
         (ret (names @ [el])))"

primrec dot_name_loop ::
  "nat \<Rightarrow> (string \<times> pos) list \<Rightarrow> ((string \<times> pos) list \<times> token_type \<times> string) pm" where
  "dot_name_loop 0 names = raise OutOfFuel"
| "dot_name_loop (Suc n) names =
     bnd (p_next n) (\<lambda>(token_type', tok).
     if tok \<noteq> ''.'' then ret (names, token_type', tok)
     else
       bnd (p_next n) (\<lambda>(token_type', tok).
       if token_type' \<noteq> NAME then ret (names, token_type', tok)
       else
         bnd get_st (\<lambda>s.
         bnd (dn_append names (tok, p_start_pos s)) (\<lambda>names'.
         dot_name_loop n names'))))"

definition parse_dot_name ::
  "nat \<Rightarrow> (token_type \<times> string) option \<Rightarrow> (dot_name \<times> token_type \<times> string) pm" where
  "parse_dot_name n pre_used_token =
     bnd (case pre_used_token of
            None \<Rightarrow>
              bnd (p_next n) (\<lambda>(token_type', tok).
              if token_type' \<noteq> NAME \<and> tok \<noteq> ''*''
              then ret (Inl (DN_Empty, token_type', tok))
              else ret (Inr (token_type', tok)))
          | Some c \<Rightarrow> ret (Inr c)) (\<lambda>r.
     case r of
       Inl early \<Rightarrow> ret early
     | Inr (token_type', tok) \<Rightarrow>
         if token_type' \<noteq> NAME \<and> tok \<noteq> ''*'' then ret (DN_None, token_type', tok)
         else
           bnd get_st (\<lambda>s. let first_pos = p_start_pos s in
           bnd (dn_append [] (tok, first_pos)) (\<lambda>names.
           bnd (dot_name_loop n names) (\<lambda>(names', token_type'', tok').
           bnd get_st (\<lambda>s'.
           if names' \<noteq> [] then
             bnd (lift (new_Name (p_module s') names' first_pos (Some (p_end_pos s')) None))
                 (\<lambda>nm. ret (DN_Name nm, token_type'', tok'))
           else ret (DN_None, token_type'', tok'))))))"

definition continue_kw :: "env \<Rightarrow> string list" where
  \<comment> \<open>\<open>[",", ";", "\n", ')'] + list(set(keyword.kwlist) - set(['as']))\<close>\<close>
  "continue_kw E = ['','', '';'', newline, '')''] @ filter (\<lambda>k. k \<noteq> ''as'') (kwlist E)"

primrec import_skip :: "nat \<Rightarrow> env \<Rightarrow> token_type \<times> string \<Rightarrow> (token_type \<times> string) pm" where
  \<comment> \<open>\<open>while tok not in continue_kw: token_type, tok = self.next()\<close>\<close>
  "import_skip 0 E c = raise OutOfFuel"
| "import_skip (Suc n) E c =
     (if snd c \<notin> set (continue_kw E) then bnd (p_next n) (\<lambda>c'. import_skip n E c')
      else ret c)"

primrec import_list_loop ::
  "nat \<Rightarrow> env \<Rightarrow> (dot_name \<times> dot_name \<times> bool) list \<Rightarrow> bool \<Rightarrow> (dot_name \<times> dot_name \<times> bool) list pm" where
  "import_list_loop 0 E imports' brackets' = raise OutOfFuel"
| "import_list_loop (Suc n) E imports' brackets' =
     bnd (p_next n) (\<lambda>(token_type', tok).
     if token_type' = ENDMARKER then ret imports'
     else
       thn (whenM (brackets' \<and> tok = newline) (thn (p_next n) (ret ())))
      (bnd (if tok = ''('' then thn (p_next n) (ret True) else ret brackets') (\<lambda>brackets''.
       bnd get_current (\<lambda>cur.
       bnd (parse_dot_name n (Some cur)) (\<lambda>(i, token_type', tok).
       bnd get_st (\<lambda>s. let defunct' = \<not> dn_truthy (heap s) i in
       bnd (if tok = ''as'' then parse_dot_name n None
            else ret (DN_None, token_type', tok)) (\<lambda>(name2, token_type', tok).
       bnd (import_skip n E (token_type', tok)) (\<lambda>(token_type', tok).
       if \<not> (tok = '','' \<or> (brackets'' \<and> tok = newline)) then ret (imports' @ [(i, name2, defunct')])
       else import_list_loop n E (imports' @ [(i, name2, defunct')]) brackets''))))))))"

definition parse_import_list :: "nat \<Rightarrow> env \<Rightarrow> (dot_name \<times> dot_name \<times> bool) list pm" where
  "parse_import_list n E = import_list_loop n E [] False"

section \<open>Parser._parse_statement\<close>

text \<open>
  The local variables of \<open>_parse_statement\<close> that the loop changes. The loop body runs
  inside \<open>try: ... except (StopIteration, MultiLevelStopIteration): break\<close>, so every call
  in the body that can raise one of the two is guarded, and a guarded call that raised
  leaves the loop with the locals as they were at that point (\<open>Break\<close>).
\<close>

record stmt_locals =
  l_string :: string
  l_set_vars :: "ref list"
  l_used_funcs :: "ref list"
  l_used_vars :: "ref list"
  l_level :: int
  l_token_type :: token_type
  l_tok :: tokv
  l_tok_list :: "tok_item list"

datatype loop_ctl = Continue stmt_locals | Break stmt_locals

text \<open>The arguments \<open>(pre_used_token, added_breaks, stmt_class is Param, list_comp)\<close>.\<close>

type_synonym stmt_args = "(token_type \<times> string) option \<times> string list \<times> bool \<times> bool"

definition always_break :: "string list" where
  "always_break = ['';'', ''import'', ''from'', ''class'', ''def'', ''try'', ''except'',
                   ''finally'', ''while'', ''return'', ''yield'']"

definition not_first_break :: "string list" where
  "not_first_break = [''del'', ''raise'']"

definition opening_brackets :: "string list" where
  "opening_brackets = [''{'', ''('', ''['']"

definition closing_brackets :: "string list" where
  "closing_brackets = [''}'', '')'', '']'']"

definition tok_in :: "tokv \<Rightarrow> string list \<Rightarrow> bool" where
  \<comment> \<open>\<open>tok in [...]\<close> for a list of strings: an object equals none of them\<close>
  "tok_in tok xs = (case tok of S t \<Rightarrow> t \<in> set xs | Ob _ \<Rightarrow> False)"

definition is_word_char :: "char \<Rightarrow> bool" where
  \<comment> \<open>the character class \<open>[\w\d\'"]\<close>, on ASCII\<close>
  "is_word_char c =
     (c \<in> set ''abcdefghijklmnopqrstuvwxyzABCDEFGHIJKLMNOPQRSTUVWXYZ0123456789_''
      \<or> c = CHR 0x27 \<or> c = CHR 0x22)"

definition obj_get_code :: "ref \<Rightarrow> string hm" where
  \<comment> \<open>\<open>t.get_code()\<close> for an object of a token list\<close>
  "obj_get_code r =
     bnd (get_node r) (\<lambda>nd.
       case nd of
         Name _ _ \<Rightarrow> Name_get_code r
       | ListComprehension _ _ _ \<Rightarrow> ListComprehension_get_code r
       | Lambda _ _ _ \<Rightarrow> Lambda_get_code r
       | _ \<Rightarrow> raise Unmodelled)"

text \<open>\<^verbatim>\<open>
    for i, tok in enumerate(reversed(tok_list)):
        if not isinstance(tok, (Name, ListComprehension)):
            tok = tok[1]
        if tok in closing_brackets:
            other_level -= 1
        elif tok in opening_brackets:
            other_level += 1
        if other_level > 0:
            break
    else:
        i = 0\<close>
  The result is \<open>i\<close>. A \<open>Lambda\<close> in the list cannot be indexed.
\<close>

fun lc_scan :: "heap \<Rightarrow> tok_item list \<Rightarrow> nat \<Rightarrow> int \<Rightarrow> exc + nat" where
  "lc_scan h [] i other_level = Inr 0"
| "lc_scan h (TokObj r # ts) i other_level =
     (if isinstance_Name h r \<or> isinstance_ListComprehension h r then
        (if other_level > 0 then Inr i else lc_scan h ts (Suc i) other_level)
      else Inl TypeError)"
| "lc_scan h (TokTuple _ tok _ # ts) i other_level =
     (let other_level' = (if tok \<in> set closing_brackets then other_level - 1
                          else if tok \<in> set opening_brackets then other_level + 1
                          else other_level)
      in if other_level' > 0 then Inr i else lc_scan h ts (Suc i) other_level')"

text \<open>\<^verbatim>\<open>
    while tok != ':':
        param, tok = self._parse_statement(added_breaks=[':', ','], stmt_class=Param)
        if param is None:
            break
        params.append(param)\<close>
  The first component of the result tells whether the loop was left by an exception that
  the enclosing \<open>try\<close> catches.
\<close>

primrec lambda_params ::
  "nat \<Rightarrow> (stmt_args \<Rightarrow> (ref option \<times> tokv) pm) \<Rightarrow> tokv \<Rightarrow> ref list \<Rightarrow> (bool \<times> tokv \<times> ref list) pm" where
  "lambda_params 0 rec' tok params' = raise OutOfFuel"
| "lambda_params (Suc k) rec' tok params' =
     (if tok \<noteq> S '':'' then
        bnd (guard_stop (rec' (None, ['':'', '',''], True, False))) (\<lambda>r.
        case r of
          None \<Rightarrow> ret (True, tok, params')
        | Some (param, tok') \<Rightarrow>
            (case param of
               None \<Rightarrow> ret (False, tok', params')
             | Some p \<Rightarrow> lambda_params k rec' tok' (params' @ [p])))
      else ret (False, tok, params'))"

definition stmt_step ::
  "env \<Rightarrow> nat \<Rightarrow> (stmt_args \<Rightarrow> (ref option \<times> tokv) pm) \<Rightarrow> pos \<Rightarrow> bool \<Rightarrow> stmt_locals \<Rightarrow> loop_ctl pm" where
  "stmt_step E n rec' first_pos list_comp L0 =
     bnd get_current (\<lambda>cur.
     bnd get_st (\<lambda>s0.
     let L = L0\<lparr>l_tok_list := l_tok_list L0 @ [TokTuple (fst cur) (snd cur) (p_start_pos s0)]\<rparr> in
     if l_tok L = S ''as'' then
       (let L1 = L\<lparr>l_string := l_string L @ '' as ''\<rparr> in
        bnd (guard_stop (p_next n)) (\<lambda>r.
        case r of
          None \<Rightarrow> ret (Break L1)
        | Some (tt, tok) \<Rightarrow>
            (let L2 = L1\<lparr>l_token_type := tt, l_tok := S tok\<rparr> in
             if tt = NAME then
               bnd get_current (\<lambda>cur'.
               bnd (guard_stop (parse_dot_name n (Some cur'))) (\<lambda>r.
               case r of
                 None \<Rightarrow> ret (Break L2)
               | Some (nm, tt', tok') \<Rightarrow>
                   (let L3 = L2\<lparr>l_token_type := tt', l_tok := S tok'\<rparr> in
                    case nm of
                      DN_Name nr \<Rightarrow>
                        bnd get_st (\<lambda>s.
                        bnd (lift (Name_get_code nr)) (\<lambda>c.
                        ret (Continue (L3\<lparr>l_set_vars := (if truthy (heap s) nr
                                                             then l_set_vars L3 @ [nr]
                                                             else l_set_vars L3),
                                            l_tok_list := l_tok_list L3 @ [TokObj nr],
                                            l_string := l_string L3 @ c\<rparr>))))
                    | _ \<Rightarrow> raise AttributeError)))
             else ret (Continue L2))))
     else if l_tok L = S ''lambda'' then
       (let start_pos' = p_start_pos s0 in
        bnd (lambda_params n rec' (l_tok L) []) (\<lambda>(stopped, tok, params').
        let L1 = L\<lparr>l_tok := tok\<rparr> in
        if stopped then ret (Break L1)
        else if tok \<noteq> S '':'' then ret (Continue L1)
        else
          bnd (lift (new_Function n True (p_module s0) None params' start_pos' None)) (\<lambda>lambd.
          bnd (guard_stop (rec' (None, ['',''], False, False))) (\<lambda>r.
          case r of
            None \<Rightarrow> ret (Break L1)
          | Some (ret', tok') \<Rightarrow>
              thn (case ret' of
                     None \<Rightarrow> ret ()
                   | Some rr \<Rightarrow>
                       thn (lift (set_parent n rr (Some lambd)))
                           (lift (upd lambd (map_function
                              (\<lambda>ff. ff\<lparr>returns := returns ff @ [Some rr]\<rparr>)))))
             (bnd get_st (\<lambda>s.
              thn (lift (set_parent n lambd (p_scope s)))
             (thn (lift (set_end_pos lambd (Some (p_end_pos s))))
                  (ret (Continue (L1\<lparr>l_tok := tok',
                                      l_tok_list := butlast (l_tok_list L1) @ [TokObj lambd]\<rparr>))))))))))
     else if l_token_type L = NAME then
       (if l_tok L = S ''for'' then
          bnd (guard_stop (rec' (None, [''in''], False, False))) (\<lambda>r.
          case r of
            None \<Rightarrow> ret (Break L)
          | Some (middle, tok) \<Rightarrow>
              (let L1 = L\<lparr>l_tok := tok\<rparr> in
               case middle of
                 None \<Rightarrow> ret (Continue (L1\<lparr>l_level := l_level L1 - 1\<rparr>))
               | Some m \<Rightarrow>
                   if tok \<noteq> S ''in'' then
                     bnd get_st (\<lambda>s.
                     thn (lift (set_parent n m (p_scope s)))
                         (ret (Continue L1)))
                   else
                     bnd (guard_stop (rec' (None, ['')'', '']''], False, True))) (\<lambda>r.
                     case r of
                       None \<Rightarrow> ret (Break L1)
                     | Some (in_clause, tok2) \<Rightarrow>
                         (let L2 = L1\<lparr>l_tok := tok2\<rparr> in
                          bnd get_st (\<lambda>s.
                          case in_clause of
                            None \<Rightarrow>
                              thn (lift (set_parent n m (p_scope s)))
                             (thn push_last_back
                                  (ret (Continue L2)))
                          | Some ic \<Rightarrow>
                              if \<not> tok_in tok2 ['')'', '']''] then
                                thn (lift (set_parent n m (p_scope s)))
                               (thn (lift (set_parent n ic (p_scope s)))
                               (thn (lift (set_parent n ic (p_scope s)))
                                    (ret (Continue L2))))
                              else
                                bnd (lift_sum (lc_scan (heap s) (rev (l_tok_list L2)) 0 0)) (\<lambda>i.
                                let tl' = l_tok_list L2;
                                    tok_list' = (if i = 0 then [] else take (length tl' - i) tl');
                                    toks = (if i = 0 then butlast tl'
                                            else butlast (drop (length tl' - i) tl')) in
                                bnd (collect toks (\<lambda>t. case t of
                                        TokTuple _ x _ \<Rightarrow> ret x
                                      | TokObj o' \<Rightarrow> lift (obj_get_code o'))) (\<lambda>srcs.
                                bnd (lift (new_Statement n False (p_module s) (concat srcs) [] [] []
                                             toks first_pos (p_end_pos s))) (\<lambda>st.
                                thn (for_each [st, m, ic] (\<lambda>x. lift (set_parent n x (p_scope s))))
                               (bnd (lift (new_ListComprehension st m ic)) (\<lambda>lc.
                                bnd (lift (ListComprehension_get_code lc)) (\<lambda>c.
                                ret (Continue (L2\<lparr>l_tok := Ob lc,
                                                    l_tok_list := tok_list' @ [TokObj lc],
                                                    l_string := (if list_comp then [] else l_string L2) @ c\<rparr>)))))))))))))
        else
          bnd (guard_stop (parse_dot_name n (Some cur))) (\<lambda>r.
          case r of
            None \<Rightarrow> ret (Break L)
          | Some (nm, tt', tok') \<Rightarrow>
              (let L1 = L\<lparr>l_token_type := tt', l_tok := S tok',
                          l_tok_list := butlast (l_tok_list L)\<rparr> in
               bnd get_st (\<lambda>s.
               if dn_truthy (heap s) nm then
                 (case nm of
                    DN_Name nr \<Rightarrow>
                      bnd (lift (Name_get_code nr)) (\<lambda>c.
                      ret (Continue (L1\<lparr>l_tok_list := l_tok_list L1 @ [TokObj nr],
                                          l_used_funcs := (if tok' = ''('' then l_used_funcs L1 @ [nr]
                                                           else l_used_funcs L1),
                                          l_used_vars := (if tok' = ''('' then l_used_vars L1
                                                          else l_used_vars L1 @ [nr]),
                                          l_string := (if l_string L1 \<noteq> [] \<and> is_word_char (last (l_string L1))
                                                       then l_string L1 @ '' '' else l_string L1) @ c\<rparr>)))
                  | _ \<Rightarrow> ret (Continue L1))
               else ret (Continue L1)))))
     else
       (case l_tok L of
          Ob _ \<Rightarrow> raise AttributeError
        | S tok \<Rightarrow>
            (let L1 = (if endswith tok ''='' \<and> tok \<notin> set [''>='', ''<='', ''=='', ''!='']
                       then (if l_level L = 0
                             then L\<lparr>l_set_vars := l_set_vars L @ l_used_vars L, l_used_vars := []\<rparr>
                             else L)
                       else if tok \<in> set opening_brackets then L\<lparr>l_level := l_level L + 1\<rparr>
                       else if tok \<in> set closing_brackets then L\<lparr>l_level := l_level L - 1\<rparr>
                       else L);
                 L2 = L1\<lparr>l_string := l_string L1 @ tok\<rparr> in
             bnd (guard_stop (p_next n)) (\<lambda>r.
             case r of
               None \<Rightarrow> ret (Break L2)
             | Some (tt, tok') \<Rightarrow> ret (Continue (L2\<lparr>l_token_type := tt, l_tok := S tok'\<rparr>)))))))"

primrec stmt_loop ::
  "nat \<Rightarrow> (stmt_locals \<Rightarrow> loop_ctl pm) \<Rightarrow> string list \<Rightarrow> stmt_locals \<Rightarrow> stmt_locals pm" where
  \<comment> \<open>\<^verbatim>\<open>
    while not (tok in always_break
            or tok in not_first_break and not tok_list
            or tok in breaks and level <= 0):\<close>\<close>
  "stmt_loop 0 step breaks L = raise OutOfFuel"
| "stmt_loop (Suc k) step breaks L =
     (if \<not> (tok_in (l_tok L) always_break
             \<or> (tok_in (l_tok L) not_first_break \<and> l_tok_list L = [])
             \<or> (tok_in (l_tok L) breaks \<and> l_level L \<le> 0))
      then bnd (step L) (\<lambda>c. case c of Continue L' \<Rightarrow> stmt_loop k step breaks L'
                                     | Break L' \<Rightarrow> ret L')
      else ret L)"

primrec skip_comments :: "nat \<Rightarrow> token_type \<times> string \<Rightarrow> (token_type \<times> string) pm" where
  \<comment> \<open>\<^verbatim>\<open>
    while token_type == tokenize.COMMENT:
        self.next()
        token_type, tok = self.next()\<close>\<close>
  "skip_comments 0 c = raise OutOfFuel"
| "skip_comments (Suc k) c =
     (if fst c = COMMENT then thn (p_next k) (bnd (p_next k) (\<lambda>c'. skip_comments k c'))
      else ret c)"

definition stmt_finish :: "env \<Rightarrow> nat \<Rightarrow> bool \<Rightarrow> pos \<Rightarrow> stmt_locals \<Rightarrow> (ref option \<times> tokv) pm" where
  \<comment> \<open>the part of \<open>_parse_statement\<close> after the loop\<close>
  "stmt_finish E n is_param first_pos L =
     (if l_string L = [] then ret (None, l_tok L)
      else
        bnd get_st (\<lambda>s.
        case (if freshscope s \<and> \<not> no_docstr s \<and> length (l_tok_list L) = 1
              then (case last_token s of
                      Some (t, text) \<Rightarrow> if t = STRING then Some text else None
                    | None \<Rightarrow> None)
              else None) of
          Some text \<Rightarrow>
            bnd the_scope (\<lambda>sc.
            thn (lift (add_docstr E sc text))
                (ret (None, l_tok L)))
        | None \<Rightarrow>
            bnd (lift (new_Statement n is_param (p_module s) (l_string L) (l_set_vars L)
                         (l_used_funcs L) (l_used_vars L) (l_tok_list L) first_pos (p_end_pos s))) (\<lambda>stmt.
            thn (check_user_stmt stmt)
           (thn (whenM (tok_in (l_tok L) (always_break @ not_first_break)) push_last_back)
                (ret (Some stmt, l_tok L))))))"

primrec parse_statement :: "nat \<Rightarrow> env \<Rightarrow> stmt_args \<Rightarrow> (ref option \<times> tokv) pm" where
  "parse_statement 0 E a = raise OutOfFuel"
| "parse_statement (Suc n) E a =
     (case a of (pre_used_token, added_breaks, is_param, list_comp) \<Rightarrow>
        bnd (case pre_used_token of Some c \<Rightarrow> ret c | None \<Rightarrow> p_next n) (\<lambda>c.
        bnd (skip_comments n c) (\<lambda>(token_type', tok).
        bnd get_st (\<lambda>s. let first_pos = p_start_pos s in
        bnd (stmt_loop n (stmt_step E n (parse_statement n E) first_pos list_comp)
               ([newline, '':'', '')''] @ added_breaks)
               \<lparr>l_string = [], l_set_vars = [], l_used_funcs = [], l_used_vars = [],
                l_level = 0, l_token_type = token_type', l_tok = S tok, l_tok_list = []\<rparr>) (\<lambda>L.
        stmt_finish E n is_param first_pos L)))))"

section \<open>Parser._parse_parentheses, _parse_function and _parse_class\<close>

primrec parentheses_loop :: "nat \<Rightarrow> env \<Rightarrow> tokv option \<Rightarrow> ref list \<Rightarrow> nat \<Rightarrow> ref list pm" where
  "parentheses_loop 0 E tok names pos' = raise OutOfFuel"
| "parentheses_loop (Suc n) E tok names pos' =
     (if tok \<noteq> Some (S '')'') \<and> tok \<noteq> Some (S '':'') then
        bnd (parse_statement n E (None, ['','', '':''], True, False)) (\<lambda>(param, tok1).
        bnd (case param of
               None \<Rightarrow> ret tok1
             | Some p \<Rightarrow>
                 if tok1 = S '':'' then
                   bnd (parse_statement n E (None, ['','', '':''], False, False)) (\<lambda>(annotation', tok2).
                   thn (case annotation' of None \<Rightarrow> ret ()
                                          | Some a \<Rightarrow> lift (add_annotation n p a))
                       (ret tok2))
                 else ret tok1) (\<lambda>tok'.
        case param of
          None \<Rightarrow> parentheses_loop n E (Some tok') names pos'
        | Some p \<Rightarrow>
            bnd (lift (attr p statement_of)) (\<lambda>sf.
            if s_set_vars sf \<noteq> [] \<or> used_vars sf \<noteq> [] then
              thn (lift (upd p (map_param (\<lambda>pf. pf\<lparr>position_nr := Some pos'\<rparr>))))
                  (parentheses_loop n E (Some tok') (names @ [p]) (pos' + 1))
            else parentheses_loop n E (Some tok') names pos')))
      else ret names)"

definition parse_parentheses :: "nat \<Rightarrow> env \<Rightarrow> ref list pm" where
  "parse_parentheses n E = parentheses_loop n E None [] 0"

definition note_user_scope :: "ref \<Rightarrow> pos \<Rightarrow> unit pm" where
  \<comment> \<open>\<^verbatim>\<open>
    if self.user_scope and scope != self.user_scope \
                    and self.user_position > first_pos:
        self.user_scope = scope\<close>\<close>
  "note_user_scope scope' first_pos =
     bnd get_st (\<lambda>s.
     case user_scope s of
       None \<Rightarrow> ret ()
     | Some us \<Rightarrow>
         if scope' \<noteq> us then
           (case user_position s of
              None \<Rightarrow> raise TypeError
            | Some up \<Rightarrow> whenM (pos_less first_pos up)
                           (modify (\<lambda>s. s\<lparr>user_scope := Some scope'\<rparr>)))
         else ret ())"

definition parse_function :: "nat \<Rightarrow> env \<Rightarrow> ref option pm" where
  "parse_function n E =
     bnd get_st (\<lambda>s0. let first_pos = p_start_pos s0 in
     bnd (p_next n) (\<lambda>(token_type', fname).
     if token_type' \<noteq> NAME then ret None
     else
       bnd get_st (\<lambda>s1.
       bnd (lift (new_Name (p_module s1) [(fname, p_start_pos s1)] (p_start_pos s1)
                    (Some (p_end_pos s1)) None)) (\<lambda>fname'.
       bnd (p_next n) (\<lambda>(token_type', open').
       if open' \<noteq> ''('' then ret None
       else
         bnd (parse_parentheses n E) (\<lambda>params'.
         bnd (p_next n) (\<lambda>(token_type', colon).
         bnd (if colon \<in> set [''-'', ''->''] then
                bnd (if colon = ''-'' then bnd (p_next n) (\<lambda>(token_type', colon'). ret (colon' = ''>''))
                     else ret True) (\<lambda>ok.
                if ok then
                  bnd (parse_statement n E (None, ['':''], False, False)) (\<lambda>(annotation', colon').
                  ret (Some (annotation', colon')))
                else ret None)
              else ret (Some (None, S colon))) (\<lambda>r.
         case r of
           None \<Rightarrow> ret None
         | Some (annotation', colon') \<Rightarrow>
             if colon' \<noteq> S '':'' then ret None
             else
               bnd (lift (new_Function n False (p_module s1) (Some fname') params' first_pos
                            annotation')) (\<lambda>scope'.
               thn (note_user_scope scope' first_pos)
                   (ret (Some scope')))))))))))"

definition parse_class :: "nat \<Rightarrow> env \<Rightarrow> ref option pm" where
  "parse_class n E =
     bnd get_st (\<lambda>s0. let first_pos = p_start_pos s0 in
     bnd (p_next n) (\<lambda>(token_type', cname).
     if token_type' \<noteq> NAME then ret None
     else
       bnd get_st (\<lambda>s1.
       bnd (lift (new_Name (p_module s1) [(cname, p_start_pos s1)] (p_start_pos s1)
                    (Some (p_end_pos s1)) None)) (\<lambda>cname'.
       bnd (p_next n) (\<lambda>(token_type', next').
       bnd (if next' = ''('' then
              bnd (parse_parentheses n E) (\<lambda>super'.
              bnd (p_next n) (\<lambda>(token_type', next'').
              ret (super', next'')))
            else ret ([], next')) (\<lambda>(super', next'').
       if next'' \<noteq> '':'' then ret None
       else
         bnd (lift (new_Class n (p_module s1) cname' super' first_pos)) (\<lambda>scope'.
         thn (note_user_scope scope' first_pos)
             (ret (Some scope')))))))))"

section \<open>Parser._parse\<close>

definition leave_scope :: "unit pm" where
  \<comment> \<open>\<^verbatim>\<open>
    self.scope.end_pos = self.start_pos
    self.scope = self.scope.parent\<close>
      The test that follows in the source, for a \<open>Module\<close> that is not a \<open>SubModule\<close>,
      concerns the fast parser's module class; no such object exists when
      \<open>top_module\<close> is \<open>None\<close>.\<close>
  "leave_scope =
     bnd the_scope (\<lambda>sc.
     bnd get_st (\<lambda>s.
     thn (lift (set_end_pos sc (Some (p_start_pos s))))
    (bnd (lift (get_parent sc)) (\<lambda>p.
     modify (\<lambda>s. s\<lparr>p_scope := p\<rparr>)))))"

primrec dedent_loop :: "nat \<Rightarrow> token_type \<times> string \<Rightarrow> (token_type \<times> string) pm" where
  \<comment> \<open>\<^verbatim>\<open>
    while token_type == tokenize.DEDENT and self.scope != self.module:
        token_type, tok = self.next()
        if self.start_pos[1] <= self.scope.start_pos[1]:
            ...\<close>\<close>
  "dedent_loop 0 c = raise OutOfFuel"
| "dedent_loop (Suc n) c =
     bnd get_st (\<lambda>s.
     if fst c = DEDENT \<and> p_scope s \<noteq> Some (p_module s) then
       bnd (p_next n) (\<lambda>c'.
       bnd the_scope (\<lambda>sc.
       bnd (lift (start_pos sc)) (\<lambda>ssp.
       bnd get_st (\<lambda>s'.
       thn (whenM (snd (p_start_pos s') \<le> snd ssp) leave_scope)
           (dedent_loop n c')))))
     else ret c)"

primrec unindent_loop :: "nat \<Rightarrow> token_type \<times> string \<Rightarrow> unit pm" where
  \<comment> \<open>\<^verbatim>\<open>
    while self.start_pos[1] <= self.scope.start_pos[1] \
            and (token_type == tokenize.NAME or tok in ['(', '['])\
            and self.scope != self.module:\<close>\<close>
  "unindent_loop 0 c = raise OutOfFuel"
| "unindent_loop (Suc n) c =
     bnd the_scope (\<lambda>sc.
     bnd (lift (start_pos sc)) (\<lambda>ssp.
     bnd get_st (\<lambda>s.
     if snd (p_start_pos s) \<le> snd ssp
        \<and> (fst c = NAME \<or> snd c \<in> set [''('', ''['']) \<and> p_scope s \<noteq> Some (p_module s)
     then thn leave_scope (unindent_loop n c)
     else ret ())))"

definition extended_flow :: "string list" where
  "extended_flow = [''else'', ''elif'', ''except'', ''finally'']"

definition statement_toks :: "string list" where
  "statement_toks = [''{'', ''['', ''('', ''`'']"

definition set_scope :: "ref \<Rightarrow> unit pm" where
  "set_scope r = modify (\<lambda>s. s\<lparr>p_scope := Some r\<rparr>)"

definition set_freshscope :: "bool \<Rightarrow> unit pm" where
  "set_freshscope b = modify (\<lambda>s. s\<lparr>freshscope := b\<rparr>)"

primrec flow_inits ::
  "nat \<Rightarrow> env \<Rightarrow> string \<Rightarrow> string list \<Rightarrow> bool \<Rightarrow> tokv \<Rightarrow> ref list \<Rightarrow> (tokv \<times> ref list) pm" where
  \<comment> \<open>\<^verbatim>\<open>
    while first or command == 'with' and tok not in [':', '\n']:
        statement, tok = self._parse_statement(added_breaks=added_breaks)
        if command == 'except' and tok in added_breaks:
            n, token_type, tok = self._parse_dot_name()
            if n:
                statement.set_vars.append(n)
                statement.code += ',' + n.get_code()
        if statement:
            inits.append(statement)
        first = False\<close>\<close>
  "flow_inits 0 E command' added_breaks first tok inits' = raise OutOfFuel"
| "flow_inits (Suc n) E command' added_breaks first tok inits' =
     (if first \<or> (command' = ''with'' \<and> \<not> tok_in tok ['':'', newline]) then
        bnd (parse_statement n E (None, added_breaks, False, False)) (\<lambda>(statement, tok1).
        bnd (if command' = ''except'' \<and> tok_in tok1 added_breaks then
               bnd (parse_dot_name n None) (\<lambda>(nm, token_type', tok2).
               bnd get_st (\<lambda>s.
               thn (if dn_truthy (heap s) nm then
                      (case (nm, statement) of
                         (DN_Name nr, Some st) \<Rightarrow>
                           bnd (lift (Name_get_code nr)) (\<lambda>c.
                           lift (upd st (map_statement
                             (\<lambda>sf. sf\<lparr>s_set_vars := s_set_vars sf @ [nr],
                                       code := code sf @ '','' @ c\<rparr>))))
                       | _ \<Rightarrow> raise AttributeError)
                    else ret ())
                   (ret (S tok2))))
             else ret tok1) (\<lambda>tok'.
        flow_inits n E command' added_breaks False tok'
          (case statement of None \<Rightarrow> inits' | Some st \<Rightarrow> inits' @ [st])))
      else ret (tok, inits'))"

definition flow_set_next :: "nat \<Rightarrow> ref \<Rightarrow> ref \<Rightarrow> ref pm" where
  \<comment> \<open>\<^verbatim>\<open>
    try:
        s = self.scope.statements[-1].set_next(f)
    except (AttributeError, IndexError):
        # If set_next doesn't exist, just add it.
        s = self.scope.add_statement(f)\<close>\<close>
  "flow_set_next n sc f =
     bnd (lift (attr sc scope_of)) (\<lambda>scf.
     bnd get_st (\<lambda>s.
     if statements scf \<noteq> [] \<and> last (statements scf) < length (heap s)
        \<and> flow_of (heap s ! last (statements scf)) \<noteq> None
     then lift (set_next n (last (statements scf)) f)
     else lift (add_statement n sc f)))"

primrec from_dots :: "nat \<Rightarrow> int \<Rightarrow> (int \<times> token_type \<times> string) pm" where
  \<comment> \<open>\<^verbatim>\<open>
    while 1:
        token_type, tok = self.next()
        if tok != '.':
            break
        relative_count += 1\<close>\<close>
  "from_dots 0 relative_count' = raise OutOfFuel"
| "from_dots (Suc n) relative_count' =
     bnd (p_next n) (\<lambda>(token_type', tok).
     if tok \<noteq> ''.'' then ret (relative_count', token_type', tok)
     else from_dots n (relative_count' + 1))"

definition parse_body :: "nat \<Rightarrow> env \<Rightarrow> token_type \<times> string \<Rightarrow> unit pm" where
  \<comment> \<open>the body of \<open>for token_type, tok in self.iterator\<close>\<close>
  "parse_body n E c0 =
     bnd get_st (\<lambda>s00.
     thn (lift (upd (p_module s00) (map_module (\<lambda>mf. mf\<lparr>temp_used_names := []\<rparr>))))
    (bnd (dedent_loop n c0) (\<lambda>(token_type', tok).
     thn (unindent_loop n (token_type', tok))
    (bnd get_st (\<lambda>s0.
     bnd the_scope (\<lambda>sc0.
     let use_as_parent_scope = (if p_scope s0 = Some (p_module s0) then Some (p_module s0)
                                else p_scope s0);
         first_pos = p_start_pos s0 in
     if tok = ''def'' then
       bnd (parse_function n E) (\<lambda>func.
       case func of
         None \<Rightarrow> ret ()
       | Some f \<Rightarrow>
           thn (set_freshscope True)
          (bnd get_st (\<lambda>s.
           bnd the_scope (\<lambda>sc.
           bnd (lift (add_scope n sc f (decorators s))) (\<lambda>sub.
           thn (set_scope sub)
               (modify (\<lambda>s. s\<lparr>decorators := []\<rparr>)))))))
     else if tok = ''class'' then
       bnd (parse_class n E) (\<lambda>cls.
       case cls of
         None \<Rightarrow> ret ()
       | Some f \<Rightarrow>
           thn (set_freshscope True)
          (bnd get_st (\<lambda>s.
           bnd the_scope (\<lambda>sc.
           bnd (lift (add_scope n sc f (decorators s))) (\<lambda>sub.
           thn (set_scope sub)
               (modify (\<lambda>s. s\<lparr>decorators := []\<rparr>)))))))
     else if tok = ''import'' then
       bnd (parse_import_list n E) (\<lambda>imports'.
       thn (for_each imports' (\<lambda>(m', alias', defunct').
              bnd get_st (\<lambda>s.
              bnd (lift (new_Import n (p_module s) first_pos (p_end_pos s) m' alias' DN_None
                           False 0 defunct')) (\<lambda>i.
              thn (check_user_stmt i)
             (bnd the_scope (\<lambda>sc. lift (add_import n sc i)))))))
      (thn (whenM (imports' = [])
              (bnd get_st (\<lambda>s.
               bnd (lift (new_Import n (p_module s) first_pos (p_end_pos s) DN_None DN_None DN_None
                            False 0 True)) (\<lambda>i.
               check_user_stmt i))))
           (set_freshscope False)))
     else if tok = ''from'' then
       bnd (from_dots n 0) (\<lambda>(relative_count', token_type', tok1).
       bnd get_current (\<lambda>cur.
       bnd (parse_dot_name n (Some cur)) (\<lambda>(mod0, token_type', tok2).
       bnd (case mod0 of
              DN_Name mr \<Rightarrow> bnd (lift (Name_get_code mr)) (\<lambda>c. ret (c = ''import''))
            | _ \<Rightarrow> ret False) (\<lambda>is_import.
       bnd (if is_import \<and> relative_count' \<noteq> 0
            then thn push_last_back (ret (DN_None, ''import''))
            else ret (mod0, tok2)) (\<lambda>(mod', tok3).
       bnd get_st (\<lambda>s1.
       let defunct' = ((\<not> dn_truthy (heap s1) mod' \<and> relative_count' = 0) \<or> tok3 \<noteq> ''import'') in
       thn (whenM (defunct' \<and> tok3 \<noteq> ''import'') push_last_back)
      (bnd (parse_import_list n E) (\<lambda>names.
       thn (for_each names (\<lambda>(name', alias', defunct2).
              bnd (case name' of
                     DN_None \<Rightarrow> ret False
                   | DN_Empty \<Rightarrow> raise AttributeError
                   | DN_Name nr \<Rightarrow>
                       bnd (lift (attr nr names_of)) (\<lambda>ns.
                       case ns of [] \<Rightarrow> raise IndexError
                                | x # _ \<Rightarrow> ret (fst x = ''*''))) (\<lambda>star'.
              bnd get_st (\<lambda>s.
              bnd (lift (new_Import n (p_module s) first_pos (p_end_pos s)
                           (if star' then DN_None else name') alias' mod' star' relative_count'
                           (defunct' \<or> defunct2))) (\<lambda>i.
              thn (check_user_stmt i)
             (bnd the_scope (\<lambda>sc. lift (add_import n sc i))))))))
           (set_freshscope False)))))))))
     else if tok = ''for'' then
       bnd (parse_statement n E (None, [''in''], False, False)) (\<lambda>(set_stmt, tok1).
       if tok1 = S ''in'' then
         bnd (parse_statement n E (None, [], False, False)) (\<lambda>(statement, tok2).
         if tok2 = S '':'' then
           bnd get_st (\<lambda>s.
           bnd (lift (new_ForFlow n (p_module s)
                        (case statement of None \<Rightarrow> [] | Some st \<Rightarrow> [st]) first_pos set_stmt)) (\<lambda>f.
           bnd the_scope (\<lambda>sc.
           bnd (lift (add_statement n sc f)) (\<lambda>f'.
           set_scope f'))))
         else
           thn (case statement of None \<Rightarrow> ret ()
                                | Some st \<Rightarrow> lift (set_parent n st use_as_parent_scope))
               (case set_stmt of None \<Rightarrow> ret ()
                               | Some st \<Rightarrow> lift (set_parent n st use_as_parent_scope)))
       else
         (case set_stmt of None \<Rightarrow> ret ()
                         | Some st \<Rightarrow> lift (set_parent n st use_as_parent_scope)))
     else if tok \<in> set ([''if'', ''while'', ''try'', ''with''] @ extended_flow) then
       (let command' = tok;
            added_breaks = (if command' \<in> set [''except'', ''with''] then ['',''] else []) in
        bnd (flow_inits n E command' added_breaks True (S tok) []) (\<lambda>(tok1, inits').
        if tok1 = S '':'' then
          bnd get_st (\<lambda>s.
          bnd (lift (new_Flow n (p_module s) command' inits' first_pos)) (\<lambda>f.
          bnd the_scope (\<lambda>sc.
          bnd (if command' \<in> set extended_flow then flow_set_next n sc f
               else lift (add_statement n sc f)) (\<lambda>s'.
          set_scope s'))))
        else
          for_each inits' (\<lambda>i. lift (set_parent n i use_as_parent_scope))))
     else if tok \<in> set [''return'', ''yield''] then
       (let s' = p_start_pos s0 in
        thn (set_freshscope False)
       (bnd (lift (get_parent_until n is_Function sc0)) (\<lambda>func.
        thn (whenM (tok = ''yield'')
               (lift (upd func (\<lambda>nd. case map_function (\<lambda>ff. ff\<lparr>is_generator := True\<rparr>) nd of
                                       None \<Rightarrow> Some nd | Some nd' \<Rightarrow> Some nd'))))
       (bnd (parse_statement n E (None, [], False, False)) (\<lambda>(stmt, tok1).
        thn (case stmt of None \<Rightarrow> ret ()
                        | Some st \<Rightarrow> lift (set_parent n st use_as_parent_scope))
            (try_except (\<lambda>e. e = AttributeError)
               (thn (lift (upd func (map_function (\<lambda>ff. ff\<lparr>returns := returns ff @ [stmt]\<rparr>))))
                    (case stmt of None \<Rightarrow> raise AttributeError
                                | Some st \<Rightarrow> lift (set_start_pos st s')))
               (\<lambda>_. ret ())))))))
     else if tok = ''global'' then
       bnd get_current (\<lambda>cur.
       bnd (parse_statement n E (Some cur, [], False, False)) (\<lambda>(stmt, tok1).
       case stmt of
         None \<Rightarrow> ret ()
       | Some st \<Rightarrow>
           bnd the_scope (\<lambda>sc.
           thn (lift (thn (add_statement n sc st) (ret ())))
          (bnd (lift (attr st statement_of)) (\<lambda>sf.
           bnd get_st (\<lambda>s.
           for_each (used_vars sf) (\<lambda>nm. lift (add_global (p_module s) nm))))))))
     else if tok = ''@'' then
       bnd (parse_statement n E (None, [], False, False)) (\<lambda>(stmt, tok1).
       modify (\<lambda>s. s\<lparr>decorators := decorators s @ [stmt]\<rparr>))
     else if tok = ''pass'' then ret ()
     else if tok = ''assert'' then
       bnd (parse_statement n E (None, [], False, False)) (\<lambda>(stmt, tok1).
       thn (lift (set_parent_opt n stmt use_as_parent_scope))
      (bnd the_scope (\<lambda>sc.
       case stmt of
         None \<Rightarrow> raise AttributeError
       | Some st \<Rightarrow> lift (upd sc (map_scope (\<lambda>scf. scf\<lparr>asserts := asserts scf @ [st]\<rparr>))))))
     else if token_type' \<in> set [NAME, STRING, NUMBER] \<or> tok \<in> set statement_toks then
       bnd get_current (\<lambda>cur.
       bnd (parse_statement n E (Some cur, [], False, False)) (\<lambda>(stmt, tok1).
       thn (case stmt of
              None \<Rightarrow> ret ()
            | Some st \<Rightarrow> bnd the_scope (\<lambda>sc. lift (thn (add_statement n sc st) (ret ()))))
           (set_freshscope False)))
     else ret ()))))))"

primrec parse_loop :: "nat \<Rightarrow> env \<Rightarrow> unit pm" where
  \<comment> \<open>\<open>for token_type, tok in self.iterator\<close>: the loop ends when \<open>__next__\<close> raises
      \<open>StopIteration\<close>; an exception raised in the body leaves \<open>_parse\<close>\<close>
  "parse_loop 0 E = raise OutOfFuel"
| "parse_loop (Suc n) E =
     bnd (try_except (\<lambda>e. e = StopIteration) (bnd (p_next n) (\<lambda>c. ret (Some c)))
            (\<lambda>_. ret None)) (\<lambda>r.
     case r of
       None \<Rightarrow> ret ()
     | Some c \<Rightarrow> thn (parse_body n E c) (parse_loop n E))"

definition parse :: "nat \<Rightarrow> env \<Rightarrow> unit pm" where
  "parse n E =
     thn (modify (\<lambda>s. s\<lparr>decorators := [], freshscope := True\<rparr>))
         (parse_loop n E)"

section \<open>Parser.__init__\<close>

text \<open>
  \<open>Parser(source, module_path, user_position, no_docstr, line_offset)\<close> with
  \<open>stop_on_scope\<close> and \<open>top_module\<close> at their default \<open>None\<close>. The source text enters
  as the token sequence that the token source produces for \<open>source + '\n'\<close>, and
  \<open>stop\<close> is the exception that ends the sequence. The result is the outcome of the
  constructor and the state it leaves.
\<close>

definition Parser_init ::
  "token list \<Rightarrow> exc \<Rightarrow> string option \<Rightarrow> pos option \<Rightarrow> bool \<Rightarrow> int \<Rightarrow> pstate" where
  "Parser_init tokens stop module_path user_position' no_docstr' line_offset' =
     \<lparr>heap = snd (new_SubModule module_path (line_offset' + 1, 0) []),
      gen = tokens, gen_current = None, gen_stop = stop,
      user_position = user_position', user_scope = None, user_stmt = None,
      no_docstr = no_docstr', p_module = 0, p_scope = Some 0,
      current = None, last_token = None, p_start_pos = (1, 0), p_end_pos = (1, 0),
      decorators = [], freshscope = True\<rparr>"

definition Parser ::
  "nat \<Rightarrow> env \<Rightarrow> token list \<Rightarrow> exc \<Rightarrow> string option \<Rightarrow> pos option \<Rightarrow> bool \<Rightarrow> int
     \<Rightarrow> (exc + unit) \<times> pstate" where
  "Parser n E tokens stop module_path user_position' no_docstr' line_offset' =
     (thn (try_except is_stop (parse n E) (\<lambda>_. ret ()))
     (bnd get_st (\<lambda>s.
      thn (for_each (decorators s) (\<lambda>d. lift (set_parent_opt n d (Some (p_module s)))))
     (bnd (lift (start_pos (p_module s))) (\<lambda>sp.
      thn (modify (\<lambda>s. s\<lparr>p_start_pos := sp\<rparr>))
     (bnd get_st (\<lambda>s'.
      lift (set_end_pos (p_module s') (Some (p_end_pos s'))))))))))
     (Parser_init tokens stop module_path user_position' no_docstr' line_offset')"

section \<open>SubModule.is_builtin\<close>

definition is_builtin :: "module_f \<Rightarrow> bool" where
  \<comment> \<open>\<open>not (self.path is None or self.path.endswith('.py'))\<close>\<close>
  "is_builtin self = (\<not> (path self = None \<or> endswith (the (path self)) ''.py''))"

section \<open>api/helpers.py: check_error_statements\<close>

text \<open>
  The nodes of an error statement's stack are objects of \<^verbatim>\<open>jedi.parser.tree\<close>, which is
  not part of these files. The model takes the node type \<open>'n\<close> and the operations the two
  functions use on it as parameters: the positions, \<open>node == s\<close> for a string \<open>s\<close>,
  \<open>isinstance(node, pt.Node)\<close> with \<open>node.type\<close> and \<open>node.children\<close>,
  \<open>isinstance(node, pt.Name)\<close>, and \<open>len(node.value)\<close>.
\<close>

record 'n pt_ops =
  node_start_pos :: "'n \<Rightarrow> pos"
  node_end_pos :: "'n \<Rightarrow> pos"
  node_eq :: "'n \<Rightarrow> string \<Rightarrow> bool"
  node_is_Node :: "'n \<Rightarrow> bool"
  node_type :: "'n \<Rightarrow> string"
  node_children :: "'n \<Rightarrow> 'n list"
  node_is_Name :: "'n \<Rightarrow> bool"
  node_value_len :: "'n \<Rightarrow> int"

record 'n error_stmt =
  first_type :: string
  first_pos :: pos
  next_start_pos :: pos
  stack :: "(string \<times> 'n list) list"

fun every_second :: "'a list \<Rightarrow> 'a list" where
  \<comment> \<open>\<open>children[::2]\<close>\<close>
  "every_second [] = []"
| "every_second [x] = [x]"
| "every_second (x # y # xs) = x # every_second xs"

definition check_dotted :: "'n pt_ops \<Rightarrow> pos \<Rightarrow> 'n list \<Rightarrow> 'n list" where
  "check_dotted P pos' children =
     filter (\<lambda>name'. pos_le (node_start_pos P name') pos') (every_second children)"

text \<open>The locals \<open>(names, level, only_modules)\<close> of \<open>importer_from_error_statement\<close>
  through the loop over the nodes of an \<open>import_from\<close> entry.\<close>

fun import_from_nodes ::
  "'n pt_ops \<Rightarrow> pos \<Rightarrow> 'n list \<Rightarrow> 'n list \<times> int \<times> bool \<Rightarrow> 'n list \<times> int \<times> bool" where
  "import_from_nodes P pos' [] acc = acc"
| "import_from_nodes P pos' (node' # nodes) (names, level', only_modules) =
     (if pos_le pos' (node_start_pos P node') then (names, level', only_modules)
      else if node_is_Node P node' \<and> node_type P node' = ''dotted_name''
        then import_from_nodes P pos' nodes
               (names @ check_dotted P pos' (node_children P node'), level', only_modules)
      else if node_eq P node' ''.'' \<or> node_eq P node' ''...''
        then import_from_nodes P pos' nodes (names, level' + node_value_len P node', only_modules)
      else if node_is_Name P node'
        then import_from_nodes P pos' nodes (names @ [node'], level', only_modules)
      else if node_eq P node' ''import''
        then import_from_nodes P pos' nodes (names, level', False)
      else import_from_nodes P pos' nodes (names, level', only_modules))"

fun importer_loop ::
  "'n pt_ops \<Rightarrow> pos \<Rightarrow> (string \<times> 'n list) list \<Rightarrow> 'n list \<times> int \<times> bool \<times> bool
     \<Rightarrow> exc + ('n list option \<times> int \<times> bool \<times> bool)" where
  "importer_loop P pos' [] (names, level', only_modules, unfinished_dotted) =
     Inr (Some names, level', only_modules, unfinished_dotted)"
| "importer_loop P pos' ((typ, nodes) # rest) (names, level', only_modules, unfinished_dotted) =
     (if typ = ''dotted_name'' then
        (if nodes = [] then Inl IndexError
         else importer_loop P pos' rest
                (names @ check_dotted P pos' nodes, level', only_modules,
                 (if node_eq P (last nodes) ''.'' then True else unfinished_dotted)))
      else if typ = ''import_name'' then
        (case nodes of
           [] \<Rightarrow> Inl IndexError
         | n0 # _ \<Rightarrow>
             if pos_le (node_start_pos P n0) pos' \<and> pos_le pos' (node_end_pos P n0)
             then Inr (None, 0, False, False)
             else importer_loop P pos' rest (names, level', only_modules, unfinished_dotted))
      else if typ = ''import_from'' then
        (case import_from_nodes P pos' nodes (names, level', only_modules) of
           (names', level'', only_modules') \<Rightarrow>
             importer_loop P pos' rest (names', level'', only_modules', unfinished_dotted))
      else importer_loop P pos' rest (names, level', only_modules, unfinished_dotted))"

definition importer_from_error_statement ::
  "'n pt_ops \<Rightarrow> 'n error_stmt \<Rightarrow> pos \<Rightarrow> exc + ('n list option \<times> int \<times> bool \<times> bool)" where
  "importer_from_error_statement P error_statement pos' =
     importer_loop P pos' (stack error_statement) ([], 0, True, False)"

text \<open>\<open>module\<close> enters by its attribute \<open>error_statement_stacks\<close>.\<close>

fun check_error_statements ::
  "'n pt_ops \<Rightarrow> 'n error_stmt list \<Rightarrow> pos \<Rightarrow> exc + ('n list option \<times> int \<times> bool \<times> bool)" where
  "check_error_statements P [] pos' = Inr (None, 0, False, False)"
| "check_error_statements P (error_stmt' # rest) pos' =
     (let import_error = (first_type error_stmt' \<in> set [''import_from'', ''import_name'']);
          error_on_pos = (pos_less (first_pos error_stmt') pos'
                          \<and> pos_le pos' (next_start_pos error_stmt'))
      in if import_error \<and> error_on_pos
         then importer_from_error_statement P error_stmt' pos'
         else check_error_statements P rest pos')"

section \<open>Inputs of the boundary scenarios\<close>

text \<open>
  An instance of the parameters: \<open>literal_eval\<close> on decimal integer literals and on
  string literals in single or double quotes without escapes, \<open>cleandoc\<close> as the identity
  on strings, and the keyword list of Python 2.7.
\<close>

definition decimal_value :: "string \<Rightarrow> int" where
  "decimal_value t = foldl (\<lambda>a c. 10 * a + (int (of_char c) - 48)) 0 t"

definition example_literal_eval :: "string \<Rightarrow> exc + pyval" where
  "example_literal_eval t =
     (if t \<noteq> [] \<and> list_all (\<lambda>c. c \<in> set ''0123456789'') t then Inr (PyInt (decimal_value t))
      else if 2 \<le> length t \<and> hd t = last t \<and> (hd t = CHR 0x27 \<or> hd t = CHR 0x22)
        then Inr (PyStr (butlast (tl t)))
      else Inl ValueError)"

definition example_env :: env where
  "example_env =
     \<lparr>literal_eval = example_literal_eval,
      cleandoc = (\<lambda>v. case v of PyStr d \<Rightarrow> Inr d | _ \<Rightarrow> Inl TypeError),
      kwlist = [''and'', ''as'', ''assert'', ''break'', ''class'', ''continue'', ''def'', ''del'',
                ''elif'', ''else'', ''except'', ''exec'', ''finally'', ''for'', ''from'', ''global'',
                ''if'', ''import'', ''in'', ''is'', ''lambda'', ''not'', ''or'', ''pass'', ''print'',
                ''raise'', ''return'', ''try'', ''while'', ''with'', ''yield'']\<rparr>"

text \<open>The tokens of the source \<^verbatim>\<open>x = 1\<close> (with the newline the constructor appends).\<close>

definition tokens_x_eq_1 :: "token list" where
  "tokens_x_eq_1 =
     [(NAME, ''x'', (1, 0), (1, 1)), (OP, ''='', (1, 2), (1, 3)), (NUMBER, ''1'', (1, 4), (1, 5)),
      (NEWLINE, newline, (1, 5), (1, 6)), (ENDMARKER, [], (2, 0), (2, 0))]"

text \<open>The tokens of \<^verbatim>\<open>from .. import x, y as z\<close>.\<close>

definition tokens_from_import :: "token list" where
  "tokens_from_import =
     [(NAME, ''from'', (1, 0), (1, 4)), (OP, ''.'', (1, 5), (1, 6)), (OP, ''.'', (1, 6), (1, 7)),
      (NAME, ''import'', (1, 8), (1, 14)), (NAME, ''x'', (1, 15), (1, 16)),
      (OP, '','', (1, 16), (1, 17)), (NAME, ''y'', (1, 18), (1, 19)),
      (NAME, ''as'', (1, 20), (1, 22)), (NAME, ''z'', (1, 23), (1, 24)),
      (NEWLINE, newline, (1, 24), (1, 25)), (ENDMARKER, [], (2, 0), (2, 0))]"

text \<open>The tokens of \<^verbatim>\<open>assert\<close>.\<close>

definition tokens_assert :: "token list" where
  "tokens_assert =
     [(NAME, ''assert'', (1, 0), (1, 6)), (NEWLINE, newline, (1, 6), (1, 7)),
      (ENDMARKER, [], (2, 0), (2, 0))]"

text \<open>The tokens of \<^verbatim>\<open>import os\<close>.\<close>

definition tokens_import_os :: "token list" where
  "tokens_import_os =
     [(NAME, ''import'', (1, 0), (1, 6)), (NAME, ''os'', (1, 7), (1, 9)),
      (NEWLINE, newline, (1, 9), (1, 10)), (ENDMARKER, [], (2, 0), (2, 0))]"

text \<open>The tokens of \<^verbatim>\<open>(x)\<close>.\<close>

definition tokens_paren_x :: "token list" where
  "tokens_paren_x =
     [(OP, ''('', (1, 0), (1, 1)), (NAME, ''x'', (1, 1), (1, 2)), (OP, '')'', (1, 2), (1, 3)),
      (NEWLINE, newline, (1, 3), (1, 4)), (ENDMARKER, [], (2, 0), (2, 0))]"

definition parse_source :: "token list \<Rightarrow> string option \<Rightarrow> (exc + unit) \<times> pstate" where
  \<comment> \<open>\<open>Parser(source, module_path)\<close> with the other arguments at their defaults\<close>
  "parse_source tokens module_path =
     Parser 40 example_env tokens StopIteration module_path None False 0"

definition the_module :: "pstate \<Rightarrow> node" where
  \<comment> \<open>\<open>parser.module\<close>\<close>
  "the_module s = heap s ! p_module s"

section \<open>Reading a Call/Array tree back from the store\<close>

text \<open>
  The tree below a \<open>Call\<close> or an \<open>Array\<close> as a value: \<open>Call(name, type)\<close> with its
  \<open>execution\<close> and \<open>next\<close>, \<open>Array(type, values)\<close> with its \<open>keys\<close>, \<open>execution\<close> and
  \<open>next\<close>. A \<open>Name\<close> is shown by the texts of its parts. \<open>E_Obj\<close> is any other object,
  and what lies deeper than the bound \<open>n\<close>.
\<close>

datatype call_payload = P_None | P_Name "string list" | P_Lit pyval

datatype expr =
    E_Call call_payload call_type "expr option" "expr option"
  | E_Array call_type "expr list list" "expr list list" "expr option" "expr option"
  | E_Str string
  | E_Obj ref

definition names_text :: "heap \<Rightarrow> ref \<Rightarrow> string list" where
  "names_text h r = (if r < length h then (case names_of (h ! r) of Some ns \<Rightarrow> map fst ns
                                                                 | None \<Rightarrow> [])
                     else [])"

definition payload_of :: "heap \<Rightarrow> call_name \<Rightarrow> call_payload" where
  "payload_of h nm = (case nm of CNone \<Rightarrow> P_None | CName r \<Rightarrow> P_Name (names_text h r)
                                | CLit v \<Rightarrow> P_Lit v)"

primrec expr_of :: "nat \<Rightarrow> heap \<Rightarrow> ref \<Rightarrow> expr" where
  "expr_of 0 h r = E_Obj r"
| "expr_of (Suc n) h r =
     (if r < length h then
        (case h ! r of
           Call c \<Rightarrow>
             E_Call (payload_of h (name c)) (type_c c)
               (map_option (expr_of n h) (execution c)) (map_option (expr_of n h) (next_call c))
         | Array c a \<Rightarrow>
             E_Array (type_c c)
               (map (map (\<lambda>x. case x of FObj o' \<Rightarrow> expr_of n h o' | FStr t \<Rightarrow> E_Str t)) (values_l a))
               (map (map (\<lambda>x. case x of FObj o' \<Rightarrow> expr_of n h o' | FStr t \<Rightarrow> E_Str t)) (keys_l a))
               (map_option (expr_of n h) (execution c)) (map_option (expr_of n h) (next_call c))
         | _ \<Rightarrow> E_Obj r)
      else E_Obj r)"

definition run_assignment_details :: "heap \<Rightarrow> ref \<Rightarrow> exc + (string \<times> expr) list" where
  \<comment> \<open>\<open>stmt.assignment_details\<close>, each target tree read back\<close>
  "run_assignment_details h stmt =
     (case assignment_details example_env 40 stmt h of
        (Inl e, _) \<Rightarrow> Inl e
      | (Inr d, h') \<Rightarrow> Inr (map (\<lambda>(op, r). (op, expr_of 40 h' r)) d))"

definition run_assignment_calls :: "heap \<Rightarrow> ref \<Rightarrow> exc + expr option" where
  \<comment> \<open>\<open>stmt.get_assignment_calls()\<close>, the tree read back\<close>
  "run_assignment_calls h stmt =
     (case get_assignment_calls example_env 40 stmt h of
        (Inl e, _) \<Rightarrow> Inl e
      | (Inr r, h') \<Rightarrow> Inr (map_option (expr_of 40 h') r))"

definition module_statements :: "pstate \<Rightarrow> ref list" where
  "module_statements s = (case scope_of (the_module s) of Some sc \<Rightarrow> statements sc | None \<Rightarrow> [])"

definition module_imports :: "pstate \<Rightarrow> ref list" where
  "module_imports s = (case scope_of (the_module s) of Some sc \<Rightarrow> imports_l sc | None \<Rightarrow> [])"

definition statement_set_vars :: "heap \<Rightarrow> ref \<Rightarrow> string list list" where
  \<comment> \<open>\<open>stmt.set_vars\<close>, every \<open>Name\<close> shown by the texts of its parts\<close>
  "statement_set_vars h r =
     (case statement_of (h ! r) of Some sf \<Rightarrow> map (names_text h) (s_set_vars sf) | None \<Rightarrow> [])"

definition dot_name_text :: "heap \<Rightarrow> dot_name \<Rightarrow> string list option" where
  "dot_name_text h x = (case x of DN_Name r \<Rightarrow> Some (names_text h r) | _ \<Rightarrow> None)"

section \<open>Notions used by the properties\<close>

text \<open>
  \<open>flow_chain h r rs\<close>: in the store \<open>h\<close> the flow \<open>r\<close> is followed, through \<open>next\<close>, by
  exactly the flows \<open>rs\<close>. \<open>flow_parent\<close> is the property \<open>parent\<close> of a flow, and
  \<open>shares_parent h r rs\<close> says that every flow of \<open>rs\<close> has the parent of \<open>r\<close>.
\<close>

fun flow_chain :: "heap \<Rightarrow> ref \<Rightarrow> ref list \<Rightarrow> bool" where
  "flow_chain h r [] =
     (r < length h \<and> (case flow_of (h ! r) of Some f \<Rightarrow> next_flow f = None | None \<Rightarrow> False))"
| "flow_chain h r (x # xs) =
     (r < length h \<and> (case flow_of (h ! r) of Some f \<Rightarrow> next_flow f = Some x | None \<Rightarrow> False)
      \<and> flow_chain h x xs)"

definition flow_parent :: "heap \<Rightarrow> ref \<Rightarrow> ref option" where
  "flow_parent h r = (case simple_of (h ! r) of Some s \<Rightarrow> parent s | None \<Rightarrow> None)"

definition shares_parent :: "heap \<Rightarrow> ref \<Rightarrow> ref list \<Rightarrow> bool" where
  "shares_parent h r rs = list_all (\<lambda>x. flow_parent h x = flow_parent h r) rs"

text \<open>An \<open>if\<close> flow added to a module, an \<open>elif\<close> attached to it, and a free \<open>else\<close>.\<close>

definition example_flows :: heap where
  "example_flows =
     snd ((bnd (new_SubModule None (1, 0)) (\<lambda>m.
           bnd (new_Flow 5 m ''if'' [] (1, 0)) (\<lambda>a.
           bnd (new_Flow 5 m ''elif'' [] (3, 0)) (\<lambda>b.
           bnd (new_Flow 5 m ''else'' [] (5, 0)) (\<lambda>c.
           thn (add_statement 5 m a) (set_next 5 a b)))))) [])"

text \<open>A store with one empty \<open>TUPLE\<close> array.\<close>

definition example_tuple :: heap where
  "example_tuple = snd (new_Array (1, 0) TUPLE None None [])"

text \<open>
  An instance of the tree operations, for the witness of the property of
  \<open>check_error_statements\<close>: a node is its text, with no position information.
\<close>

definition example_ops :: "string pt_ops" where
  "example_ops =
     \<lparr>node_start_pos = (\<lambda>_. (1, 0)), node_end_pos = (\<lambda>_. (1, 0)),
      node_eq = (\<lambda>x t. x = t), node_is_Node = (\<lambda>_. False), node_type = (\<lambda>_. []),
      node_children = (\<lambda>_. []), node_is_Name = (\<lambda>_. False),
      node_value_len = (\<lambda>x. int (length x))\<rparr>"

text \<open>
  \<open>preserves Q f\<close>: every run of \<open>f\<close> from a state that satisfies \<open>Q\<close> ends in a state
  that satisfies \<open>Q\<close>, whether it returns or raises.
\<close>

definition preserves :: "('s \<Rightarrow> bool) \<Rightarrow> ('s, 'a) m \<Rightarrow> bool" where
  "preserves Q f = (\<forall>s. Q s \<longrightarrow> Q (snd (f s)))"

text \<open>The invariant of the imports: \<open>star\<close> implies that \<open>namespace\<close> is \<open>None\<close>.\<close>

definition import_ok :: "node \<Rightarrow> bool" where
  "import_ok nd = (case nd of Import _ i \<Rightarrow> star i \<longrightarrow> namespace i = DN_None | _ \<Rightarrow> True)"

definition imports_ok :: "heap \<Rightarrow> bool" where
  "imports_ok h = list_all import_ok h"

definition keeps :: "(node \<Rightarrow> node option) \<Rightarrow> bool" where
  "keeps F = (\<forall>nd nd'. import_ok nd \<longrightarrow> F nd = Some nd' \<longrightarrow> import_ok nd')"

definition st_ok :: "pstate \<Rightarrow> bool" where
  "st_ok s = imports_ok (heap s)"

text \<open>The tokens of \<^verbatim>\<open>from os import *\<close>.\<close>

definition tokens_from_star :: "token list" where
  "tokens_from_star =
     [(NAME, ''from'', (1, 0), (1, 4)), (NAME, ''os'', (1, 5), (1, 7)),
      (NAME, ''import'', (1, 8), (1, 14)), (OP, ''*'', (1, 15), (1, 16)),
      (NEWLINE, newline, (1, 16), (1, 17)), (ENDMARKER, [], (2, 0), (2, 0))]"

text \<open>
  \<open>used_names[t]\<close> as a set (empty for a missing key), the object at a place of the
  store, and the module of a parser state.
\<close>

definition lookup_used :: "(string \<times> ref list) list \<Rightarrow> string \<Rightarrow> ref set" where
  "lookup_used un t = (case map_of un t of None \<Rightarrow> {} | Some v \<Rightarrow> set v)"

definition node_at :: "ref \<Rightarrow> node \<Rightarrow> heap \<Rightarrow> bool" where
  "node_at k nd h = (k < length h \<and> h ! k = nd)"

definition module_at :: "ref \<Rightarrow> node \<Rightarrow> pstate \<Rightarrow> bool" where
  "module_at k nd s = (p_module s = k \<and> node_at k nd (heap s))"

definition module_used_names :: "pstate \<Rightarrow> string \<Rightarrow> ref list" where
  \<comment> \<open>\<open>parser.module.used_names[t]\<close>\<close>
  "module_used_names s t =
     (case module_of (the_module s) of
        Some mf \<Rightarrow> (case map_of (used_names mf) t of Some v \<Rightarrow> v | None \<Rightarrow> [])
      | None \<Rightarrow> [])"

definition has_name_part :: "heap \<Rightarrow> string \<Rightarrow> tok_item \<Rightarrow> bool" where
  \<comment> \<open>the entry is a \<open>Name\<close> with a part of text \<open>t\<close>\<close>
  "has_name_part h t x =
     (case x of TokObj r \<Rightarrow> isinstance_Name h r \<and> t \<in> set (names_text h r)
              | TokTuple _ _ _ \<Rightarrow> False)"

definition statements_with_name_part :: "heap \<Rightarrow> string \<Rightarrow> ref list" where
  \<comment> \<open>the statements of the store with a name part of text \<open>t\<close> in their token list\<close>
  "statements_with_name_part h t =
     filter (\<lambda>r. case statement_of (h ! r) of
                   Some sf \<Rightarrow> list_ex (has_name_part h t) (token_list sf)
                 | None \<Rightarrow> False) [0..<length h]"

text \<open>A parser state on no input in which \<open>_parse_dot_name\<close> has read the name \<open>x\<close>.\<close>

definition example_pending :: pstate where
  "example_pending =
     snd (dn_append [] (''x'', (1, 0)) (Parser_init [] StopIteration None None False 0))"

text \<open>\<open>ends f r s1\<close>: some run of \<open>f\<close> returns \<open>r\<close> and leaves the state \<open>s1\<close>.\<close>

definition ends :: "('s, 'a) m \<Rightarrow> 'a \<Rightarrow> 's \<Rightarrow> bool" where
  "ends f r s1 = (\<exists>s. f s = (Inr r, s1))"

section \<open>Properties\<close>

lemma endswith_suffix: "endswith s suf = suffix suf s"
proof
  assume "endswith s suf"
  then have "s = take (length s - length suf) s @ suf"
    by (metis append_take_drop_id endswith_def)
  then show "suffix suf s" by (metis suffixI)
next
  assume "suffix suf s"
  then obtain p where "s = p @ suf" by (auto simp: suffix_def)
  then show "endswith s suf" by (simp add: endswith_def)
qed


subsection \<open>C2: is_builtin\<close>

text \<open>
  C2 as stated (\<open>is_builtin()\<close> holds iff the path is absent or does not end with
  \<^verbatim>\<open>.py\<close>) fails for a module parsed without a path: its path is absent and
  \<open>is_builtin()\<close> is false.
\<close>

theorem is_builtin_no_path_counterexample:
  "case the_module (snd (parse_source tokens_x_eq_1 None)) of
     SubModule _ _ mf \<Rightarrow> path mf = None \<and> is_builtin mf = False
   | _ \<Rightarrow> False"
  by code_simp

text \<open>
  C2, amended: \<open>is_builtin()\<close> holds iff the path is present and does not end with
  \<^verbatim>\<open>.py\<close>.
\<close>

theorem is_builtin_iff:
  "is_builtin mf = (\<exists>p. path mf = Some p \<and> \<not> suffix ''.py'' p)"
  by (cases "path mf") (auto simp: is_builtin_def endswith_suffix)



subsection \<open>C1: the constructor and malformed input\<close>

text \<open>
  C1 says that \<open>Parser(source)\<close> never raises. On the source \<^verbatim>\<open>assert\<close> the statement
  parsed in the \<open>assert\<close> branch is \<open>None\<close>, and \<open>stmt.parent = ...\<close> raises
  \<open>AttributeError\<close>, which the constructor does not catch.
\<close>

theorem parser_assert_raises:
  "fst (parse_source tokens_assert None) = Inl AttributeError"
  by code_simp

subsection \<open>C3: the scenario \<^verbatim>\<open>x = 1\<close>\<close>

text \<open>
  C3 as stated fails: the \<open>assignment_details\<close> of the statement of \<^verbatim>\<open>x = 1\<close> is not
  \<open>[("=", Array(NOARRAY, [[Call(1, NUMBER)]]))]\<close>.
\<close>

theorem x_eq_1_details_counterexample:
  "case parse_source tokens_x_eq_1 None of
     (r, s) \<Rightarrow>
       run_assignment_details (heap s) 2
         \<noteq> Inr [(''='', E_Array NOARRAY [[E_Call (P_Lit (PyInt 1)) Call_NUMBER None None]] []
                         None None)]"
  by code_simp

text \<open>
  C3, amended: parsing \<^verbatim>\<open>x = 1\<close> returns normally and yields a module with exactly one
  statement; its \<open>set_vars\<close> is \<open>["x"]\<close>; its \<open>assignment_details\<close> is
  \<open>[("=", Array(NOARRAY, [[Call(x, NAME)]]))]\<close>, the operator with the tree of the target,
  and \<open>get_assignment_calls()\<close> returns \<open>Array(NOARRAY, [[Call(1, NUMBER)]])\<close>, the tree of
  the value.
\<close>

theorem x_eq_1_scenario:
  "case parse_source tokens_x_eq_1 None of
     (r, s) \<Rightarrow>
       r = Inr ()
       \<and> module_statements s = [2]
       \<and> length (filter (\<lambda>nd. statement_of nd \<noteq> None) (heap s)) = 1
       \<and> statement_set_vars (heap s) 2 = [[''x'']]
       \<and> run_assignment_details (heap s) 2
           = Inr [(''='', E_Array NOARRAY [[E_Call (P_Name [''x'']) Call_NAME None None]] []
                           None None)]
       \<and> run_assignment_calls (heap s) 2
           = Inr (Some (E_Array NOARRAY [[E_Call (P_Lit (PyInt 1)) Call_NUMBER None None]] []
                          None None))"
  by code_simp

subsection \<open>C4: the scenario \<^verbatim>\<open>from .. import x, y as z\<close>\<close>

text \<open>
  C4: parsing \<^verbatim>\<open>from .. import x, y as z\<close> returns normally and yields exactly two
  imports; both have \<open>relative_count = 2\<close>, no \<open>from_ns\<close> and \<open>star = False\<close>; the alias of
  the second has the text \<open>z\<close>.
\<close>

theorem from_import_scenario:
  "case parse_source tokens_from_import None of
     (r, s) \<Rightarrow>
       r = Inr ()
       \<and> length (filter (\<lambda>nd. import_of nd \<noteq> None) (heap s)) = 2
       \<and> map (\<lambda>i. map_option (\<lambda>f. (relative_count f, from_ns f, star f)) (import_of (heap s ! i)))
             (module_imports s)
           = [Some (2, DN_None, False), Some (2, DN_None, False)]
       \<and> map (\<lambda>i. map_option (\<lambda>f. dot_name_text (heap s) (alias_n f)) (import_of (heap s ! i)))
             (module_imports s)
           = [Some None, Some (Some [''z''])]"
  by code_simp


subsection \<open>Running the monad\<close>

lemma bndE:
  assumes "bnd m f h = (Inr r, h1)"
  obtains y h' where "m h = (Inr y, h')" "f y h' = (Inr r, h1)"
  using assms by (auto simp: bnd_def split: prod.splits sum.splits)

lemma thnE:
  assumes "thn m g h = (Inr r, h1)"
  obtains y h' where "m h = (Inr y, h')" "g h' = (Inr r, h1)"
  using assms by (auto simp: thn_def bnd_def split: prod.splits sum.splits)

lemma upd_result:
  "upd r F h = (Inr x, h') \<Longrightarrow> r < length h \<and> (\<exists>nd'. F (h ! r) = Some nd' \<and> h' = h[r := nd'])"
  by (auto simp: upd_def bnd_def get_node_def put_node_def raise_def split: if_splits option.splits)

lemma attr_result:
  "attr r G h = (Inr x, h') \<Longrightarrow> r < length h \<and> G (h ! r) = Some x \<and> h' = h"
  by (auto simp: attr_def bnd_def get_node_def ret_def raise_def split: if_splits option.splits)

lemma attr_run:
  "r < length h \<Longrightarrow> G (h ! r) = Some x \<Longrightarrow> attr r G h = (Inr x, h)"
  by (simp add: attr_def bnd_def get_node_def ret_def)

lemma statement_of_map_statement:
  "map_statement g nd = Some nd' \<Longrightarrow> \<exists>sf. statement_of nd = Some sf \<and> statement_of nd' = Some (g sf)"
  by (cases nd) auto

lemma ends_bnd: "ends (bnd f g) r s1 \<Longrightarrow> \<exists>y. ends (g y) r s1"
  unfolding ends_def by (auto elim!: bndE)

lemma ends_thn: "ends (thn f g) r s1 \<Longrightarrow> ends g r s1"
  unfolding ends_def by (auto elim!: thnE)

lemma ends_upd_ret:
  "ends (thn (upd self F) (ret x)) r h1 \<Longrightarrow>
     r = x \<and> (\<exists>h6 nd'. self < length h6 \<and> F (h6 ! self) = Some nd' \<and> h1 = h6[self := nd'])"
  unfolding ends_def by (auto elim!: thnE dest!: upd_result simp: ret_def)

lemma get_assignment_calls_memo:
  assumes "get_assignment_calls E n self h = (Inr r, h1)"
  shows "\<exists>sf. self < length h1 \<and> statement_of (h1 ! self) = Some sf
            \<and> assignment_calls_calculated sf \<and> assignment_calls_cache sf = r"
proof -
  from assms obtain sf h0 where a: "attr self statement_of h = (Inr sf, h0)"
    and b: "(if assignment_calls_calculated sf then ret (assignment_calls_cache sf)
       else
       thn (upd self (map_statement (\<lambda>f. f\<lparr>assignment_details_cache := Some []\<rparr>)))
      (bnd (start_pos self) (\<lambda>sp.
       bnd (new_Array sp NOARRAY (Some self) None) (\<lambda>top0.
       bnd (gac_loop (token_list sf) E n self False
              \<lparr>top = top0, result = Some top0, level = 0, is_chain = False,
               close_brackets = False, tok_v = None, start_pos_v = None\<rparr>) (\<lambda>L.
       thn (if token_list sf \<noteq> [] then gac_finish n L (result L)
            else bnd (the_result L) (\<lambda>r. bnd (end_pos self) (\<lambda>e. set_call_end_pos r e)))
      (thn (upd self (map_statement (\<lambda>f. f\<lparr>assignment_calls_calculated := True,
                                               assignment_calls_cache := Some (top L)\<rparr>)))
           (ret (Some (top L))))))))) h0 = (Inr r, h1)"
    unfolding get_assignment_calls_def by (erule bndE)
  from attr_result[OF a] have h0: "self < length h" "statement_of (h ! self) = Some sf" "h0 = h"
    by auto
  show ?thesis
  proof (cases "assignment_calls_calculated sf")
    case True
    with b h0 show ?thesis by (auto simp: ret_def)
  next
    case False
    with b have "ends (thn (upd self (map_statement (\<lambda>f. f\<lparr>assignment_details_cache := Some []\<rparr>)))
      (bnd (start_pos self) (\<lambda>sp.
       bnd (new_Array sp NOARRAY (Some self) None) (\<lambda>top0.
       bnd (gac_loop (token_list sf) E n self False
              \<lparr>top = top0, result = Some top0, level = 0, is_chain = False,
               close_brackets = False, tok_v = None, start_pos_v = None\<rparr>) (\<lambda>L.
       thn (if token_list sf \<noteq> [] then gac_finish n L (result L)
            else bnd (the_result L) (\<lambda>r. bnd (end_pos self) (\<lambda>e. set_call_end_pos r e)))
      (thn (upd self (map_statement (\<lambda>f. f\<lparr>assignment_calls_calculated := True,
                                               assignment_calls_cache := Some (top L)\<rparr>)))
           (ret (Some (top L))))))))) r h1"
      unfolding ends_def by auto
    then have "\<exists>L :: gac. ends (thn (upd self (map_statement (\<lambda>f. f\<lparr>assignment_calls_calculated := True,
                                               assignment_calls_cache := Some (top L)\<rparr>)))
           (ret (Some (top L)))) r h1"
      apply -
      apply (drule ends_thn)
      apply (drule ends_bnd, erule exE)
      apply (drule ends_bnd, erule exE)
      apply (drule ends_bnd, erule exE)
      apply (drule ends_thn)
      apply blast
      done
    then obtain L :: gac and h6 nd' where
      r: "r = Some (top L)" and
      nd': "self < length h6" "map_statement (\<lambda>f. f\<lparr>assignment_calls_calculated := True,
                  assignment_calls_cache := Some (top L)\<rparr>) (h6 ! self) = Some nd'" "h1 = h6[self := nd']"
      by (blast dest!: ends_upd_ret)
    from statement_of_map_statement[OF nd'(2)] obtain sf' where
      "statement_of nd' = Some (sf'\<lparr>assignment_calls_calculated := True,
                  assignment_calls_cache := Some (top L)\<rparr>)" by blast
    then show ?thesis using r nd' by auto
  qed
qed


subsection \<open>C6: the tails of a flow share the parent of its head\<close>

lemma flow_chain_cong:
  "flow_chain h r rs \<Longrightarrow> length h' = length h \<Longrightarrow> (\<forall>x \<in> set (r # rs). flow_of (h' ! x) = flow_of (h ! x))
   \<Longrightarrow> flow_chain h' r rs"
  by (induction rs arbitrary: r) auto

lemma flow_chain_bound: "flow_chain h r rs \<Longrightarrow> \<forall>x \<in> set (r # rs). x < length h"
  by (induction rs arbitrary: r) auto

lemma flow_of_map_simple:
  "flow_of nd = Some f \<Longrightarrow> \<exists>nd'. map_simple g nd = Some nd' \<and> flow_of nd' = Some f
      \<and> simple_of nd' = map_option g (simple_of nd)"
  by (cases nd) auto

lemma set_parent_chain:
  assumes "flow_chain h r rs" "distinct (r # rs)" "length rs < n"
  shows "\<exists>h'. set_parent n r v h = (Inr (), h') \<and> length h' = length h
           \<and> (\<forall>y. y \<notin> set (r # rs) \<longrightarrow> h' ! y = h ! y)
           \<and> (\<forall>x \<in> set (r # rs). flow_of (h' ! x) = flow_of (h ! x) \<and> flow_parent h' x = v)"
  using assms
proof (induction rs arbitrary: r h n)
  case Nil
  then obtain k where n: "n = Suc k" by (cases n) auto
  from Nil obtain f where r: "r < length h" and f: "flow_of (h ! r) = Some f" "next_flow f = None"
    by (auto split: option.splits)
  from flow_of_map_simple[OF f(1), of "\<lambda>s. s\<lparr>parent := v\<rparr>"] obtain nd' where
    nd': "map_simple (\<lambda>s. s\<lparr>parent := v\<rparr>) (h ! r) = Some nd'" "flow_of nd' = Some f"
         "simple_of nd' = map_option (\<lambda>s. s\<lparr>parent := v\<rparr>) (simple_of (h ! r))" by blast
  have sim: "simple_of (h ! r) \<noteq> None" using f(1) by (cases "h ! r") auto
  have "set_parent n r v h = (Inr (), h[r := nd'])"
    using r f nd' by (simp add: n bnd_def thn_def get_node_def upd_def put_node_def ret_def)
  then show ?case using r f nd' sim by (auto simp: flow_parent_def)
next
  case (Cons x xs)
  then obtain k where n: "n = Suc k" by (cases n) auto
  from Cons.prems obtain f where r: "r < length h" and f: "flow_of (h ! r) = Some f" "next_flow f = Some x"
    and ch: "flow_chain h x xs"
    by (auto split: option.splits)
  from flow_of_map_simple[OF f(1), of "\<lambda>s. s\<lparr>parent := v\<rparr>"] obtain nd' where
    nd': "map_simple (\<lambda>s. s\<lparr>parent := v\<rparr>) (h ! r) = Some nd'" "flow_of nd' = Some f"
         "simple_of nd' = map_option (\<lambda>s. s\<lparr>parent := v\<rparr>) (simple_of (h ! r))" by blast
  have sim: "simple_of (h ! r) \<noteq> None" using f(1) by (cases "h ! r") auto
  let ?h1 = "h[r := nd']"
  have rx: "r \<notin> set (x # xs)" using Cons.prems(2) by auto
  have ch1: "flow_chain ?h1 x xs"
  proof (rule flow_chain_cong[OF ch])
    show "length ?h1 = length h" by simp
    show "\<forall>y \<in> set (x # xs). flow_of (?h1 ! y) = flow_of (h ! y)"
      using rx by (metis nth_list_update_neq)
  qed
  from Cons.IH[OF ch1, of k] Cons.prems n obtain h' where
    h': "set_parent k x v ?h1 = (Inr (), h')" "length h' = length ?h1"
        "\<forall>y. y \<notin> set (x # xs) \<longrightarrow> h' ! y = ?h1 ! y"
        "\<forall>y \<in> set (x # xs). flow_of (h' ! y) = flow_of (?h1 ! y) \<and> flow_parent h' y = v"
    by auto
  have "set_parent n r v h = (Inr (), h')"
    using r f nd' h'(1) by (simp add: n bnd_def thn_def get_node_def upd_def put_node_def ret_def)
  moreover have "h' ! r = nd'" using h'(3) rx r by auto
  ultimately show ?case using r f nd' sim h' rx
    by (auto simp: flow_parent_def nth_list_update)
qed


lemma flow_of_map_flow:
  "flow_of nd = Some f \<Longrightarrow> \<exists>nd'. map_flow g nd = Some nd' \<and> flow_of nd' = Some (g f)
      \<and> simple_of nd' = simple_of nd"
  by (cases nd) auto

lemma flow_parent_of:
  "flow_of nd = Some f \<Longrightarrow> \<exists>s. simple_of nd = Some s \<and> parent_of nd = Some (parent s)"
  by (cases nd) auto

lemma set_next_chain:
  assumes "flow_chain h r rs" "distinct (r # rs @ nx # ns)" "flow_chain h nx ns"
    "length rs + length ns + 1 < n"
  shows "\<exists>h'. set_next n r nx h = (Inr nx, h') \<and> length h' = length h
           \<and> (\<forall>y. y \<notin> set (last (r # rs) # nx # ns) \<longrightarrow> h' ! y = h ! y)
           \<and> flow_chain h' r (rs @ nx # ns)
           \<and> (\<forall>y \<in> set (r # rs). flow_parent h' y = flow_parent h y)
           \<and> (\<forall>y \<in> set (nx # ns). flow_parent h' y = flow_parent h (last (r # rs)))"
  using assms
proof (induction rs arbitrary: r n)
  case Nil
  then obtain k where n: "n = Suc k" by (cases n) auto
  from Nil obtain f where r: "r < length h" and f: "flow_of (h ! r) = Some f" "next_flow f = None"
    by (auto split: option.splits)
  from flow_of_map_flow[OF f(1), of "\<lambda>f. f\<lparr>next_flow := Some nx\<rparr>"] obtain nd1 where
    nd1: "map_flow (\<lambda>f. f\<lparr>next_flow := Some nx\<rparr>) (h ! r) = Some nd1"
         "flow_of nd1 = Some (f\<lparr>next_flow := Some nx\<rparr>)" "simple_of nd1 = simple_of (h ! r)" by blast
  from flow_parent_of[OF nd1(2)] obtain s where
    s: "simple_of nd1 = Some s" "parent_of nd1 = Some (parent s)" by blast
  let ?h1 = "h[r := nd1]"
  have rn: "r \<notin> set (nx # ns)" using Nil.prems(2) by auto
  have ch1: "flow_chain ?h1 nx ns"
  proof (rule flow_chain_cong[OF Nil.prems(3)])
    show "length ?h1 = length h" by simp
    show "\<forall>y \<in> set (nx # ns). flow_of (?h1 ! y) = flow_of (h ! y)"
      using rn by (metis nth_list_update_neq)
  qed
  have dn: "distinct (nx # ns)" using Nil.prems(2) by auto
  have "length ns < k" using Nil.prems(4) n by simp
  from set_parent_chain[OF ch1 dn this, of "parent s"] obtain h' where
    h': "set_parent k nx (parent s) ?h1 = (Inr (), h')" "length h' = length ?h1"
        "\<forall>y. y \<notin> set (nx # ns) \<longrightarrow> h' ! y = ?h1 ! y"
        "\<forall>y \<in> set (nx # ns). flow_of (h' ! y) = flow_of (?h1 ! y) \<and> flow_parent h' y = parent s"
    by blast
  have run: "set_next n r nx h = (Inr nx, h')"
    using r f nd1 s h'(1)
    by (simp add: n bnd_def thn_def attr_def get_node_def upd_def put_node_def ret_def get_parent_def)
  have hr: "h' ! r = nd1" using h'(3) rn r by simp
  have chain': "flow_chain h' r (nx # ns)"
  proof -
    have "flow_chain h' nx ns"
      by (rule flow_chain_cong[OF ch1]) (use h' in auto)
    then show ?thesis using r h'(2) hr nd1(2) by simp
  qed
  have frame: "\<forall>y. y \<notin> set (last [r] # nx # ns) \<longrightarrow> h' ! y = h ! y"
    using h'(3) by (simp add: nth_list_update)
  have pr: "flow_parent h' r = flow_parent h r"
    using hr nd1(3) by (simp add: flow_parent_def)
  have ps: "flow_parent h r = parent s"
  proof -
    have "simple_of (h ! r) = Some s" using nd1(3) s(1) by simp
    then show ?thesis by (simp add: flow_parent_def)
  qed
  show ?case using run h'(2) chain' frame pr ps h'(4) by auto
next
  case (Cons x xs)
  then obtain k where n: "n = Suc k" by (cases n) auto
  from Cons.prems obtain f where r: "r < length h" and f: "flow_of (h ! r) = Some f" "next_flow f = Some x"
    and ch: "flow_chain h x xs"
    by (auto split: option.splits)
  have d: "distinct (x # xs @ nx # ns)" using Cons.prems(2) by auto
  have k: "length xs + length ns + 1 < k" using Cons.prems(4) n by simp
  from Cons.IH[OF ch d Cons.prems(3) k] obtain h' where
    h': "set_next k x nx h = (Inr nx, h')" "length h' = length h"
        "\<forall>y. y \<notin> set (last (x # xs) # nx # ns) \<longrightarrow> h' ! y = h ! y"
        "flow_chain h' x (xs @ nx # ns)"
        "\<forall>y \<in> set (x # xs). flow_parent h' y = flow_parent h y"
        "\<forall>y \<in> set (nx # ns). flow_parent h' y = flow_parent h (last (x # xs))"
    by blast
  have run: "set_next n r nx h = (Inr nx, h')"
    using r f h'(1) by (simp add: n bnd_def attr_def get_node_def ret_def)
  have "last (x # xs) \<in> set (x # xs)" by (rule last_in_set) simp
  then have rl: "r \<notin> set (last (x # xs) # nx # ns)" using Cons.prems(2) by auto
  then have hr: "h' ! r = h ! r" using h'(3) by blast
  have chain': "flow_chain h' r ((x # xs) @ nx # ns)"
    using r h'(2) hr f h'(4) by simp
  have frame: "\<forall>y. y \<notin> set (last (r # x # xs) # nx # ns) \<longrightarrow> h' ! y = h ! y"
    using h'(3) by simp
  have pr: "flow_parent h' r = flow_parent h r" using hr by (simp add: flow_parent_def)
  show ?case using run h'(2) chain' frame pr h'(5) h'(6) by auto
qed


text \<open>
  C6: let \<open>r\<close> be the head of a chain of flows \<open>r \<rightarrow> rs\<close> without repetition. Assigning
  \<open>v\<close> to the parent of the head returns normally and leaves the chain in place with
  \<open>v\<close> as the parent of the head and of every tail. And if the tails share the parent of the
  head, \<open>set_next\<close> with the head of a second chain \<open>nx \<rightarrow> ns\<close>, disjoint from the first,
  returns \<open>nx\<close> and yields the chain \<open>r \<rightarrow> rs, nx, ns\<close> whose tails all share the
  unchanged parent of the head. (\<open>n\<close> bounds the depth of the recursion.)
\<close>

theorem flow_tails_share_parent:
  assumes "flow_chain h r rs" and "distinct (r # rs)"
  shows "(length rs < n \<longrightarrow>
            (\<exists>h'. set_parent n r v h = (Inr (), h') \<and> flow_chain h' r rs
                   \<and> flow_parent h' r = v \<and> shares_parent h' r rs))
       \<and> (shares_parent h r rs \<and> flow_chain h nx ns \<and> distinct (r # rs @ nx # ns)
            \<and> length rs + length ns + 1 < n \<longrightarrow>
            (\<exists>h'. set_next n r nx h = (Inr nx, h') \<and> flow_chain h' r (rs @ nx # ns)
                   \<and> flow_parent h' r = flow_parent h r \<and> shares_parent h' r (rs @ nx # ns)))"
proof (intro conjI impI)
  assume n: "length rs < n"
  from set_parent_chain[OF assms n, of v] obtain h' where
    h': "set_parent n r v h = (Inr (), h')" "length h' = length h"
        "\<forall>x \<in> set (r # rs). flow_of (h' ! x) = flow_of (h ! x) \<and> flow_parent h' x = v"
    by blast
  have "flow_chain h' r rs" by (rule flow_chain_cong[OF assms(1) h'(2)]) (use h'(3) in blast)
  then show "\<exists>h'. set_parent n r v h = (Inr (), h') \<and> flow_chain h' r rs
                   \<and> flow_parent h' r = v \<and> shares_parent h' r rs"
    using h' by (auto simp: shares_parent_def list_all_iff)
next
  assume a: "shares_parent h r rs \<and> flow_chain h nx ns \<and> distinct (r # rs @ nx # ns)
            \<and> length rs + length ns + 1 < n"
  from set_next_chain[OF assms(1), of nx ns n] a obtain h' where
    h': "set_next n r nx h = (Inr nx, h')"
        "flow_chain h' r (rs @ nx # ns)"
        "\<forall>y \<in> set (r # rs). flow_parent h' y = flow_parent h y"
        "\<forall>y \<in> set (nx # ns). flow_parent h' y = flow_parent h (last (r # rs))"
    by blast
  have "last (r # rs) \<in> set (r # rs)" by (rule last_in_set) simp
  then have "flow_parent h (last (r # rs)) = flow_parent h r"
    using a by (auto simp: shares_parent_def list_all_iff)
  then show "\<exists>h'. set_next n r nx h = (Inr nx, h') \<and> flow_chain h' r (rs @ nx # ns)
                   \<and> flow_parent h' r = flow_parent h r \<and> shares_parent h' r (rs @ nx # ns)"
    using h' a by (auto simp: shares_parent_def list_all_iff)
qed


text \<open>The example chain satisfies the hypotheses.\<close>

theorem flow_tails_share_parent_witness:
  "flow_chain example_flows 1 [2] \<and> distinct [1 :: nat, 2]
   \<and> (\<exists>h'. set_parent 5 1 (Some 3) example_flows = (Inr (), h') \<and> flow_chain h' 1 [2]
            \<and> flow_parent h' 1 = Some 3 \<and> shares_parent h' 1 [2])
   \<and> (\<exists>h'. set_next 5 1 3 example_flows = (Inr 3, h') \<and> flow_chain h' 1 [2, 3]
            \<and> flow_parent h' 1 = Some 0 \<and> shares_parent h' 1 [2, 3])"
proof -
  have a: "flow_chain example_flows 1 [2]" by code_simp
  have b: "distinct [1 :: nat, 2]" by simp
  have c: "shares_parent example_flows 1 [2] \<and> flow_chain example_flows 3 []
           \<and> distinct ((1 :: nat) # [2] @ 3 # [])" by code_simp
  have d: "flow_parent example_flows 1 = Some 0" by code_simp
  show ?thesis
    using flow_tails_share_parent [OF a b, of 5 "Some 3" 3 "[]"] a b c d by simp
qed

subsection \<open>C7: get_assignment_calls is memoized\<close>

text \<open>
  C7: when \<open>get_assignment_calls\<close> on a statement returns \<open>r\<close> and leaves the store \<open>h1\<close>,
  a second call (with any bound \<open>k\<close>) returns the same \<open>r\<close> and leaves \<open>h1\<close> as it is:
  nothing is recomputed and nothing is changed.
\<close>

theorem get_assignment_calls_idempotent:
  assumes "get_assignment_calls E n self h = (Inr r, h1)"
  shows "get_assignment_calls E k self h1 = (Inr r, h1)"
proof -
  from get_assignment_calls_memo[OF assms] obtain sf where
    "self < length h1" "statement_of (h1 ! self) = Some sf"
    "assignment_calls_calculated sf" "assignment_calls_cache sf = r" by blast
  then show ?thesis
    by (simp add: get_assignment_calls_def attr_run bnd_def ret_def)
qed


text \<open>The statement of \<^verbatim>\<open>x = 1\<close>: the first call returns the object 5.\<close>

theorem get_assignment_calls_idempotent_witness:
  "\<exists>h1. get_assignment_calls example_env 40 2 (heap (snd (parse_source tokens_x_eq_1 None)))
           = (Inr (Some 5), h1)
        \<and> get_assignment_calls example_env 40 2 h1 = (Inr (Some 5), h1)"
proof -
  let ?h = "heap (snd (parse_source tokens_x_eq_1 None))"
  have a: "fst (get_assignment_calls example_env 40 2 ?h) = Inr (Some 5)" by code_simp
  have b: "get_assignment_calls example_env 40 2 ?h
             = (Inr (Some 5), snd (get_assignment_calls example_env 40 2 ?h))"
    using a by (simp add: prod_eq_iff)
  show ?thesis
    using get_assignment_calls_idempotent [OF b, of 40] b by blast
qed

subsection \<open>C10: check_error_statements without a matching entry\<close>

text \<open>
  C10: if no entry of \<open>error_statement_stacks\<close> has \<open>first_type\<close> \<open>import_from\<close> or
  \<open>import_name\<close> with \<open>first_pos < pos <= next_start_pos\<close>, then
  \<open>check_error_statements\<close> returns \<open>(None, 0, False, False)\<close>; with no entries at all the
  hypothesis holds, and nothing is raised.
\<close>

theorem check_error_statements_no_match:
  assumes "\<forall>e \<in> set stacks. \<not> (first_type e \<in> set [''import_from'', ''import_name'']
              \<and> pos_less (first_pos e) pos' \<and> pos_le pos' (next_start_pos e))"
  shows "check_error_statements P stacks pos' = Inr (None, 0, False, False)"
  using assms by (induction stacks) (auto simp: Let_def)


text \<open>Two entries that do not match, and the empty list.\<close>

theorem check_error_statements_no_match_witness:
  "check_error_statements example_ops
     [\<lparr>first_type = ''import_from'', first_pos = (1, 0), next_start_pos = (1, 4), stack = []\<rparr>,
      \<lparr>first_type = ''expr_stmt'', first_pos = (2, 0), next_start_pos = (9, 0), stack = []\<rparr>] (3, 1)
     = Inr (None, 0, False, False)
   \<and> check_error_statements example_ops [] (3, 1) = Inr (None, 0, False, False)"
  using check_error_statements_no_match
          [of "[\<lparr>first_type = ''import_from'', first_pos = (1, 0), next_start_pos = (1, 4), stack = []\<rparr>,
                \<lparr>first_type = ''expr_stmt'', first_pos = (2, 0), next_start_pos = (9, 0), stack = []\<rparr>]"
              "(3, 1)" example_ops]
        check_error_statements_no_match [of "[]" "(3, 1)" example_ops]
  by (simp add: pos_less_def pos_le_def)

subsection \<open>C9: the first token of an empty tuple\<close>

text \<open>
  C9: for an \<open>Array\<close> with no values and type \<open>TUPLE\<close>, \<open>add_to_current_field\<close> returns
  normally, sets the type to \<open>NOARRAY\<close> and makes the token the only element of a new first
  field. And the statement of \<^verbatim>\<open>(x)\<close> sub-parses to a \<open>NOARRAY\<close> array whose only token is
  the array of the parentheses, itself \<open>NOARRAY\<close>, not \<open>TUPLE\<close>, with the call \<open>x\<close>.
\<close>

theorem add_to_current_field_empty_tuple:
  "(a < length h \<and> h ! a = Array c arr \<and> values_l arr = [] \<and> type_c c = TUPLE \<longrightarrow>
      add_to_current_field a tok h
        = (Inr (), h[a := Array (c\<lparr>type_c := NOARRAY\<rparr>) (arr\<lparr>values_l := [[tok]]\<rparr>)]))
   \<and> (case parse_source tokens_paren_x None of
         (r, s) \<Rightarrow>
           r = Inr () \<and> module_statements s = [2]
           \<and> run_assignment_calls (heap s) 2
               = Inr (Some (E_Array NOARRAY
                              [[E_Array NOARRAY [[E_Call (P_Name [''x'']) Call_NAME None None]] []
                                  None None]] [] None None)))"
proof (intro conjI impI)
  assume "a < length h \<and> h ! a = Array c arr \<and> values_l arr = [] \<and> type_c c = TUPLE"
  then show "add_to_current_field a tok h
        = (Inr (), h[a := Array (c\<lparr>type_c := NOARRAY\<rparr>) (arr\<lparr>values_l := [[tok]]\<rparr>)])"
    by (simp add: add_to_current_field_def upd_def bnd_def get_node_def put_node_def
          Array_add_to_current_field_def)
next
  show "case parse_source tokens_paren_x None of
         (r, s) \<Rightarrow>
           r = Inr () \<and> module_statements s = [2]
           \<and> run_assignment_calls (heap s) 2
               = Inr (Some (E_Array NOARRAY
                              [[E_Array NOARRAY [[E_Call (P_Name [''x'']) Call_NAME None None]] []
                                  None None]] [] None None))"
    by code_simp
qed


text \<open>An empty \<open>TUPLE\<close> array and the token \<open>x\<close>.\<close>

theorem add_to_current_field_empty_tuple_witness:
  "0 < length example_tuple
   \<and> (\<exists>c arr. example_tuple ! 0 = Array c arr \<and> values_l arr = [] \<and> type_c c = TUPLE
         \<and> add_to_current_field 0 (FStr ''x'') example_tuple
             = (Inr (), [Array (c\<lparr>type_c := NOARRAY\<rparr>) (arr\<lparr>values_l := [[FStr ''x'']]\<rparr>)]))"
proof -
  let ?c = "\<lparr>name = CNone, call_parent = None, type_c = TUPLE, call_start_pos = (1, 0),
            next_call = None, execution = None, parent_stmt_raw = None, call_end_pos = None\<rparr>"
  let ?arr = "\<lparr>values_l = [], arr_el_pos = [], keys_l = []\<rparr>"
  have a: "example_tuple = [Array ?c ?arr]"
    by (simp add: example_tuple_def new_Array_def alloc_def)
  have b: "0 < length example_tuple \<and> example_tuple ! 0 = Array ?c ?arr \<and> values_l ?arr = []
           \<and> type_c ?c = TUPLE"
    unfolding a by simp
  show ?thesis
    using add_to_current_field_empty_tuple [of 0 example_tuple ?c ?arr "FStr ''x''"] b
    unfolding a by simp
qed


end
